theory Spec2Isabelle
  imports Complex_Main "HOL-Library.Log_Nat"
begin

section \<open>JavaScript values\<close>

subsection \<open>Numbers\<close>

text \<open>
  A JavaScript Number is an IEEE 754 double. A finite double is kept as the rational it
  denotes; the two zeros are identified (no operation of this program tells them apart:
  it multiplies, adds, divides by the nonzero constants 1e9 and 1e6, floors and prints).
\<close>

datatype js_number = Finite rat | PosInf | NegInf | NaN

text \<open>\<open>binade x\<close> is the exponent \<open>e\<close> with \<open>2^e \<le> |x| < 2^(e+1)\<close>, for \<open>x \<noteq> 0\<close>.\<close>

definition binade :: "rat \<Rightarrow> int" where
  "binade x = (let (p, q) = quotient_of \<bar>x\<bar>; d = bitlen p - bitlen q
               in if 2 powi d \<le> \<bar>x\<bar> then d else d - 1)"

definition round_half_even :: "rat \<Rightarrow> int" where
  "round_half_even m = (let f = \<lfloor>m\<rfloor>; d = m - of_int f
     in if d < 1 / 2 then f else if 1 / 2 < d then f + 1 else if even f then f else f + 1)"

text \<open>
  \<open>fl x\<close> is "the Number value for \<open>x\<close>" of ECMAScript 6.1.6.1: the double nearest to
  the real \<open>x\<close>, ties to the even significand, with 53 significant bits, the least
  exponent \<open>-1022\<close> (below it the spacing stays \<open>2^-1074\<close>) and overflow to an infinity
  from \<open>2^1024\<close> on.
\<close>

definition fl :: "rat \<Rightarrow> js_number" where
  "fl x = (if x = 0 then Finite 0 else
     let e = max (binade x) (- 1022);
         ulp = 2 powi (e - 52);
         y = of_int (round_half_even (x / ulp)) * ulp
     in if 2 powi 1024 \<le> \<bar>y\<bar> then (if 0 < x then PosInf else NegInf) else Finite y)"

text \<open>The operators \<open>*\<close>, \<open>+\<close> and \<open>/\<close> on Numbers, and \<open>Math.floor\<close>.\<close>

fun js_mul :: "js_number \<Rightarrow> js_number \<Rightarrow> js_number" where
  "js_mul NaN _ = NaN"
| "js_mul _ NaN = NaN"
| "js_mul (Finite a) (Finite b) = fl (a * b)"
| "js_mul (Finite a) PosInf = (if a = 0 then NaN else if 0 < a then PosInf else NegInf)"
| "js_mul (Finite a) NegInf = (if a = 0 then NaN else if 0 < a then NegInf else PosInf)"
| "js_mul PosInf (Finite b) = (if b = 0 then NaN else if 0 < b then PosInf else NegInf)"
| "js_mul NegInf (Finite b) = (if b = 0 then NaN else if 0 < b then NegInf else PosInf)"
| "js_mul PosInf PosInf = PosInf"
| "js_mul PosInf NegInf = NegInf"
| "js_mul NegInf PosInf = NegInf"
| "js_mul NegInf NegInf = PosInf"

fun js_add :: "js_number \<Rightarrow> js_number \<Rightarrow> js_number" where
  "js_add NaN _ = NaN"
| "js_add _ NaN = NaN"
| "js_add (Finite a) (Finite b) = fl (a + b)"
| "js_add (Finite a) PosInf = PosInf"
| "js_add (Finite a) NegInf = NegInf"
| "js_add PosInf (Finite b) = PosInf"
| "js_add NegInf (Finite b) = NegInf"
| "js_add PosInf PosInf = PosInf"
| "js_add PosInf NegInf = NaN"
| "js_add NegInf PosInf = NaN"
| "js_add NegInf NegInf = NegInf"

text \<open>A zero divisor is read as \<open>+0\<close>; every division of this program is by a nonzero constant.\<close>

fun js_div :: "js_number \<Rightarrow> js_number \<Rightarrow> js_number" where
  "js_div NaN _ = NaN"
| "js_div _ NaN = NaN"
| "js_div (Finite a) (Finite b) =
     (if b = 0 then (if a = 0 then NaN else if 0 < a then PosInf else NegInf)
      else fl (a / b))"
| "js_div (Finite a) PosInf = Finite 0"
| "js_div (Finite a) NegInf = Finite 0"
| "js_div PosInf (Finite b) = (if 0 \<le> b then PosInf else NegInf)"
| "js_div NegInf (Finite b) = (if 0 \<le> b then NegInf else PosInf)"
| "js_div PosInf PosInf = NaN"
| "js_div PosInf NegInf = NaN"
| "js_div NegInf PosInf = NaN"
| "js_div NegInf NegInf = NaN"

fun Math_floor :: "js_number \<Rightarrow> js_number" where
  "Math_floor (Finite a) = Finite (of_int \<lfloor>a\<rfloor>)"
| "Math_floor PosInf = PosInf"
| "Math_floor NegInf = NegInf"
| "Math_floor NaN = NaN"

text \<open>\<open>Number(n)\<close> for a BigInt \<open>n\<close>: the Number value for the integer.\<close>

definition Number_of_bigint :: "int \<Rightarrow> js_number" where
  "Number_of_bigint n = fl (of_int n)"

text \<open>The constant of \<open>@solana/web3.js\<close>: \<open>LAMPORTS_PER_SOL = 1000000000\<close>.\<close>

definition LAMPORTS_PER_SOL :: js_number where
  "LAMPORTS_PER_SOL = Finite 1000000000"

subsection \<open>Values and errors\<close>

datatype js_value =
    JUndefined
  | JNull
  | JBool bool
  | JNum js_number
  | JStr string
  | JArr "js_value list"
  | JObj "(string \<times> js_value) list"
  | JBuiltin string

text \<open>A thrown \<open>Error\<close> object, with its \<open>name\<close> and \<open>message\<close> properties.\<close>

datatype js_error = JsError (err_name: string) (err_message: string)

text \<open>The \<open>TypeError\<close> of reading the property \<open>name\<close> of \<open>undefined\<close> or \<open>null\<close>.\<close>

definition cannot_read :: "js_value \<Rightarrow> string \<Rightarrow> js_error" where
  "cannot_read v name = JsError ''TypeError''
     (''Cannot read properties of '' @ (if v = JNull then ''null'' else ''undefined'')
        @ '' (reading '' @ name @ '')'')"

section \<open>The ledger, the SDK and the wallet\<close>

datatype pubkey = PublicKey (toBase58: string)

datatype keypair = Keypair (publicKey: pubkey)

datatype authorized = Authorized pubkey pubkey

datatype lockup = Lockup nat nat pubkey

text \<open>
  The instructions this program builds, each with the parameters the source passes:
  \<open>Transfer_instruction\<close> is what \<open>SystemProgram.transfer\<close> returns and
  \<open>CreateAccount_instruction\<close> what \<open>StakeProgram.createAccount\<close> returns.
\<close>

datatype instruction =
    Transfer_instruction pubkey pubkey js_number
  | createAssociatedTokenAccountInstruction pubkey pubkey pubkey pubkey
  | createTransferInstruction pubkey pubkey pubkey int
  | CreateAccount_instruction pubkey pubkey authorized lockup js_number
  | StakeProgram_delegate pubkey pubkey pubkey
  | StakeProgram_deactivate pubkey pubkey
  | StakeProgram_withdraw pubkey pubkey pubkey js_number

record token_account =
  amount :: int

text \<open>
  An entry of \<open>getParsedProgramAccounts\<close>: \<open>account.lamports\<close> and \<open>account.data\<close>,
  which is a raw \<open>Buffer\<close> or a \<open>ParsedAccountData\<close> whose \<open>parsed\<close> property is any
  JSON value.
\<close>

datatype account_data = RawBuffer | ParsedAccountData js_value

record account_info =
  lamports :: js_number
  data :: account_data

record http_request =
  req_method :: string
  req_url :: string
  req_query :: "(string \<times> string) list"
  req_headers :: "(string \<times> string) list"
  req_body :: "js_value option"

text \<open>
  A response of \<open>fetch\<close>: its status, and what \<open>text()\<close> and \<open>json()\<close> give when
  awaited (either can reject).
\<close>

record http_response =
  status :: nat
  text_result :: "js_error + string"
  json_result :: "js_error + js_value"

text \<open>
  What the program has done to the outside: the transactions handed to the ledger for
  submission, each with its signers (those built here and those received from the swap
  service), the HTTP requests sent and the number of keypairs generated, in order.
\<close>

record send_options =
  maxRetries :: nat
  skipPreflight :: bool

text \<open>A transaction received serialised from the swap service, with its signers.\<close>

datatype versioned_transaction = VersionedTransaction js_value "keypair list"

record world =
  sent :: "(instruction list \<times> keypair list) list"
  sent_versioned :: "(versioned_transaction \<times> send_options) list"
  fetched :: "http_request list"
  generated :: nat

text \<open>
  The collaborators outside this repository, each a parameter: the constructors and
  helpers of \<open>@solana/web3.js\<close> and \<open>@solana/spl-token\<close>, the answers of the RPC node
  and of the HTTP services (which may depend on everything done so far), the
  JavaScript conversions whose definition the properties below do not need, and the
  errors with which \<open>SystemProgram.transfer\<close> and \<open>StakeProgram.createAccount\<close>
  refuse an amount they cannot encode (\<open>None\<close> when they accept it).
\<close>

record sdk =
  new_PublicKey :: "js_value \<Rightarrow> js_error + pubkey"
  getAssociatedTokenAddress :: "pubkey \<Rightarrow> pubkey \<Rightarrow> js_error + pubkey"
  getAccount :: "world \<Rightarrow> pubkey \<Rightarrow> js_error + token_account"
  rpc_sendAndConfirm :: "world \<Rightarrow> instruction list \<Rightarrow> keypair list \<Rightarrow> js_error + string"
  getBalance :: "world \<Rightarrow> pubkey \<Rightarrow> js_error + js_number"
  getMinimumBalanceForRentExemption :: "world \<Rightarrow> nat \<Rightarrow> js_error + js_number"
  getParsedProgramAccounts ::
    "world \<Rightarrow> pubkey \<Rightarrow> nat \<times> string \<Rightarrow> js_error + (pubkey \<times> account_info) list"
  Keypair_generate :: "world \<Rightarrow> keypair"
  http_fetch :: "world \<Rightarrow> http_request \<Rightarrow> js_error + http_response"
  VersionedTransaction_deserialize :: "js_value \<Rightarrow> js_error + versioned_transaction"
  sign :: "versioned_transaction \<Rightarrow> keypair list \<Rightarrow> js_error + versioned_transaction"
  rpc_sendTransaction :: "world \<Rightarrow> versioned_transaction \<Rightarrow> send_options \<Rightarrow> js_error + string"
  rpc_confirmTransaction :: "world \<Rightarrow> string \<Rightarrow> js_error + js_value"
  StringToNumber :: "string \<Rightarrow> js_number"
  ToNumber_other :: "js_value \<Rightarrow> js_number"
  JSON_stringify :: "js_value \<Rightarrow> string"
  URLSearchParams_toString :: "(string \<times> string) list \<Rightarrow> string"
  BigInt :: "js_value \<Rightarrow> js_error + int"
  transfer_rejects :: "pubkey \<Rightarrow> pubkey \<Rightarrow> int \<Rightarrow> js_error option"
  createAccount_rejects ::
    "pubkey \<Rightarrow> pubkey \<Rightarrow> authorized \<Rightarrow> lockup \<Rightarrow> js_number \<Rightarrow> js_error option"
  ToString_other :: "js_value \<Rightarrow> js_error + string"

record wallet =
  wallet_keypair :: keypair

definition address :: "wallet \<Rightarrow> string" where
  "address wl = toBase58 (publicKey (wallet_keypair wl))"

text \<open>\<open>sendAndConfirmTransaction(connection, transaction, signers)\<close>.\<close>

definition sendAndConfirmTransaction ::
  "sdk \<Rightarrow> world \<Rightarrow> instruction list \<Rightarrow> keypair list \<Rightarrow> (js_error + string) \<times> world" where
  "sendAndConfirmTransaction k w tx signers =
     (rpc_sendAndConfirm k w tx signers, w\<lparr>sent := sent w @ [(tx, signers)]\<rparr>)"

subsection \<open>Printing numbers\<close>

definition digit_char :: "nat \<Rightarrow> char" where
  "digit_char n = ''0123456789'' ! n"

fun digits_of_nat :: "nat \<Rightarrow> string" where
  "digits_of_nat n = (if n < 10 then [digit_char n] else digits_of_nat (n div 10) @ [digit_char (n mod 10)])"

declare digits_of_nat.simps [simp del]

text \<open>
  \<open>Number.prototype.toString()\<close> on an integer below \<open>10^21\<close> in magnitude prints its
  decimal digits; \<open>NaN\<close> and the infinities print their names. Other Numbers (fractions,
  exponent notation) are left to the parameter.
\<close>

definition Number_toString :: "sdk \<Rightarrow> js_number \<Rightarrow> js_error + string" where
  "Number_toString k n = (case n of
       Finite r \<Rightarrow>
         (if r = of_int \<lfloor>r\<rfloor> \<and> \<bar>r\<bar> < 10 ^ 21
          then Inr ((if r < 0 then ''-'' else '''') @ digits_of_nat (nat \<bar>\<lfloor>r\<rfloor>\<bar>))
          else ToString_other k (JNum n))
     | PosInf \<Rightarrow> Inr ''Infinity''
     | NegInf \<Rightarrow> Inr ''-Infinity''
     | NaN \<Rightarrow> Inr ''NaN'')"

text \<open>\<open>v.toString()\<close>: a \<open>TypeError\<close> on \<open>undefined\<close> and \<open>null\<close>.\<close>

definition toString :: "sdk \<Rightarrow> js_value \<Rightarrow> js_error + string" where
  "toString k v = (case v of
       JUndefined \<Rightarrow> Inl (cannot_read v ''toString'')
     | JNull \<Rightarrow> Inl (cannot_read v ''toString'')
     | JStr s \<Rightarrow> Inr s
     | JNum n \<Rightarrow> Number_toString k n
     | JBool b \<Rightarrow> Inr (if b then ''true'' else ''false'')
     | _ \<Rightarrow> ToString_other k v)"

subsection \<open>The instruction constructors that can throw\<close>

text \<open>\<open>BigInt(n)\<close> for a Number \<open>n\<close>: a \<open>RangeError\<close> unless \<open>n\<close> is an integer.\<close>

definition BigInt_of_number :: "js_number \<Rightarrow> js_error + int" where
  "BigInt_of_number n =
     (case n of
        Finite r \<Rightarrow>
          if r = of_int \<lfloor>r\<rfloor> then Inr \<lfloor>r\<rfloor>
          else Inl (JsError ''RangeError'' ''The number cannot be converted to a BigInt because it is not an integer'')
      | _ \<Rightarrow> Inl (JsError ''RangeError'' ''The number cannot be converted to a BigInt because it is not an integer''))"

text \<open>
  \<open>SystemProgram.transfer({fromPubkey, toPubkey, lamports})\<close> encodes
  \<open>BigInt(lamports)\<close>, so it throws on \<open>NaN\<close>, on an infinity and on a fraction; what
  it does with an integer it cannot encode is left to the parameter.
\<close>

definition SystemProgram_transfer ::
  "sdk \<Rightarrow> pubkey \<Rightarrow> pubkey \<Rightarrow> js_number \<Rightarrow> js_error + instruction" where
  "SystemProgram_transfer k fromPubkey toPubkey lamports' =
     (case BigInt_of_number lamports' of
        Inl e \<Rightarrow> Inl e
      | Inr n \<Rightarrow>
          (case transfer_rejects k fromPubkey toPubkey n of
             Some e \<Rightarrow> Inl e
           | None \<Rightarrow> Inr (Transfer_instruction fromPubkey toPubkey lamports')))"

text \<open>
  \<open>StakeProgram.createAccount({fromPubkey, stakePubkey, authorized, lockup, lamports})\<close>;
  the amounts it refuses to encode (an infinity, for one) are left to the parameter.
\<close>

definition StakeProgram_createAccount ::
  "sdk \<Rightarrow> pubkey \<Rightarrow> pubkey \<Rightarrow> authorized \<Rightarrow> lockup \<Rightarrow> js_number \<Rightarrow> js_error + instruction" where
  "StakeProgram_createAccount k fromPubkey stakePubkey auth lock lamports' =
     (case createAccount_rejects k fromPubkey stakePubkey auth lock lamports' of
        Some e \<Rightarrow> Inl e
      | None \<Rightarrow> Inr (CreateAccount_instruction fromPubkey stakePubkey auth lock lamports'))"

section \<open>Transfer module\<close>

record sol_transfer_result =
  sol_signature :: string
  sol_from :: string
  sol_to :: string
  sol_amount :: js_number
  sol_unit :: string
  sol_explorerUrl :: string

record token_transfer_result =
  tok_signature :: string
  tok_from :: string
  tok_to :: string
  tok_amount :: string
  tok_mint :: string
  tok_explorerUrl :: string

text \<open>
  \<open>Transfer.sendSol(toAddress, amountSol)\<close>. \<open>amountSol\<close> is the Number the
  multiplication sees (the operator converts a string argument first).
\<close>

definition sendSol ::
  "sdk \<Rightarrow> wallet \<Rightarrow> world \<Rightarrow> string \<Rightarrow> js_number \<Rightarrow> (js_error + sol_transfer_result) \<times> world" where
  "sendSol k wl w toAddress amountSol =
     (case new_PublicKey k (JStr toAddress) of
        Inl e \<Rightarrow> (Inl e, w)
      | Inr toPubkey \<Rightarrow>
          let lamports = Math_floor (js_mul amountSol LAMPORTS_PER_SOL)
          in (case SystemProgram_transfer k (publicKey (wallet_keypair wl)) toPubkey lamports of
                Inl e \<Rightarrow> (Inl e, w)
              | Inr instruction \<Rightarrow>
                  let transaction = [instruction];
                      (r, w') = sendAndConfirmTransaction k w transaction [wallet_keypair wl]
                  in (case r of
                        Inl e \<Rightarrow> (Inl e, w')
                      | Inr signature \<Rightarrow>
                          (Inr \<lparr>sol_signature = signature, sol_from = address wl,
                                sol_to = toAddress, sol_amount = amountSol, sol_unit = ''SOL'',
                                sol_explorerUrl = ''https://solscan.io/tx/'' @ signature\<rparr>,
                           w'))))"

text \<open>
  The \<open>try\<close>/\<open>catch\<close> of \<open>sendToken\<close> around the existence check: the transaction after
  it, or the error thrown out of it.
\<close>

definition check_destination ::
  "sdk \<Rightarrow> wallet \<Rightarrow> world \<Rightarrow> instruction list \<Rightarrow> pubkey \<Rightarrow> pubkey \<Rightarrow> pubkey \<Rightarrow> js_error + instruction list" where
  "check_destination k wl w transaction destAta toPubkey mintPubkey =
     (case getAccount k w destAta of
        Inr _ \<Rightarrow> Inr transaction
      | Inl e \<Rightarrow>
          if err_name e = ''TokenAccountNotFoundError''
          then Inr (transaction @
                 [createAssociatedTokenAccountInstruction
                    (publicKey (wallet_keypair wl)) destAta toPubkey mintPubkey])
          else Inl e)"

text \<open>
  \<open>Transfer.sendToken(toAddress, amount, mintAddress)\<close>. The first component is the
  local \<open>transaction\<close> object as it is when the call returns or throws (empty when the
  call throws before creating it).
\<close>

definition sendToken ::
  "sdk \<Rightarrow> wallet \<Rightarrow> world \<Rightarrow> string \<Rightarrow> js_value \<Rightarrow> string
     \<Rightarrow> instruction list \<times> (js_error + token_transfer_result) \<times> world" where
  "sendToken k wl w toAddress amt mintAddress =
     (case new_PublicKey k (JStr toAddress) of
        Inl e \<Rightarrow> ([], Inl e, w)
      | Inr toPubkey \<Rightarrow>
     (case new_PublicKey k (JStr mintAddress) of
        Inl e \<Rightarrow> ([], Inl e, w)
      | Inr mintPubkey \<Rightarrow>
     (case getAssociatedTokenAddress k mintPubkey (publicKey (wallet_keypair wl)) of
        Inl e \<Rightarrow> ([], Inl e, w)
      | Inr sourceAta \<Rightarrow>
     (case getAssociatedTokenAddress k mintPubkey toPubkey of
        Inl e \<Rightarrow> ([], Inl e, w)
      | Inr destAta \<Rightarrow>
     (case check_destination k wl w [] destAta toPubkey mintPubkey of
        Inl e \<Rightarrow> ([], Inl e, w)
      | Inr transaction1 \<Rightarrow>
     (case BigInt k amt of
        Inl e \<Rightarrow> (transaction1, Inl e, w)
      | Inr n \<Rightarrow>
          let transaction2 = transaction1 @
                [createTransferInstruction sourceAta destAta (publicKey (wallet_keypair wl)) n];
              (r, w') = sendAndConfirmTransaction k w transaction2 [wallet_keypair wl]
          in (case r of
                Inl e \<Rightarrow> (transaction2, Inl e, w')
              | Inr signature \<Rightarrow>
                 (case toString k amt of
                    Inl e \<Rightarrow> (transaction2, Inl e, w')
                  | Inr amount_text \<Rightarrow>
                      (transaction2,
                       Inr \<lparr>tok_signature = signature, tok_from = address wl, tok_to = toAddress,
                            tok_amount = amount_text, tok_mint = mintAddress,
                            tok_explorerUrl = ''https://solscan.io/tx/'' @ signature\<rparr>,
                       w')))))))))"

section \<open>Wallet module\<close>

text \<open>
  \<open>Wallet.getTokenBalance(mintAddress)\<close>: the body of the \<open>try\<close>, then the \<open>catch\<close>.
\<close>

definition getTokenBalance_try :: "sdk \<Rightarrow> wallet \<Rightarrow> world \<Rightarrow> string \<Rightarrow> js_error + js_number" where
  "getTokenBalance_try k wl w mintAddress =
     (case new_PublicKey k (JStr mintAddress) of
        Inl e \<Rightarrow> Inl e
      | Inr mint \<Rightarrow>
     (case getAssociatedTokenAddress k mint (publicKey (wallet_keypair wl)) of
        Inl e \<Rightarrow> Inl e
      | Inr ata \<Rightarrow>
     (case getAccount k w ata of
        Inl e \<Rightarrow> Inl e
      | Inr account \<Rightarrow> Inr (Number_of_bigint (amount account)))))"

definition getTokenBalance :: "sdk \<Rightarrow> wallet \<Rightarrow> world \<Rightarrow> string \<Rightarrow> js_error + js_number" where
  "getTokenBalance k wl w mintAddress =
     (case getTokenBalance_try k wl w mintAddress of
        Inr n \<Rightarrow> Inr n
      | Inl e \<Rightarrow> if err_name e = ''TokenAccountNotFoundError'' then Inr (Finite 0) else Inl e)"

section \<open>Strings, objects and the alias tables\<close>

text \<open>
  Strings are sequences of 8-bit characters. \<open>toUpperCase\<close> and \<open>toLowerCase\<close> map the
  ASCII letters as JavaScript does and leave every other character as it is (the
  Unicode case mappings of other characters are not modelled).
\<close>

definition lower_letters :: string where
  "lower_letters = ''abcdefghijklmnopqrstuvwxyz''"

definition upper_letters :: string where
  "upper_letters = ''ABCDEFGHIJKLMNOPQRSTUVWXYZ''"

definition upper_char :: "char \<Rightarrow> char" where
  "upper_char c = (case map_of (zip lower_letters upper_letters) c of Some u \<Rightarrow> u | None \<Rightarrow> c)"

definition lower_char :: "char \<Rightarrow> char" where
  "lower_char c = (case map_of (zip upper_letters lower_letters) c of Some l \<Rightarrow> l | None \<Rightarrow> c)"

definition toUpperCase :: "string \<Rightarrow> string" where
  "toUpperCase s = map upper_char s"

definition toLowerCase :: "string \<Rightarrow> string" where
  "toLowerCase s = map lower_char s"

text \<open>
  The properties that every object written as a literal inherits from
  \<open>Object.prototype\<close>; each is a built-in function, and \<open>__proto__\<close> reads the prototype
  object itself.
\<close>

definition Object_prototype :: "(string \<times> js_value) list" where
  "Object_prototype =
     [(''constructor'', JBuiltin ''Object''),
      (''__proto__'', JBuiltin ''Object.prototype''),
      (''hasOwnProperty'', JBuiltin ''Object.prototype.hasOwnProperty''),
      (''isPrototypeOf'', JBuiltin ''Object.prototype.isPrototypeOf''),
      (''propertyIsEnumerable'', JBuiltin ''Object.prototype.propertyIsEnumerable''),
      (''toLocaleString'', JBuiltin ''Object.prototype.toLocaleString''),
      (''toString'', JBuiltin ''Object.prototype.toString''),
      (''valueOf'', JBuiltin ''Object.prototype.valueOf''),
      (''__defineGetter__'', JBuiltin ''Object.prototype.__defineGetter__''),
      (''__defineSetter__'', JBuiltin ''Object.prototype.__defineSetter__''),
      (''__lookupGetter__'', JBuiltin ''Object.prototype.__lookupGetter__''),
      (''__lookupSetter__'', JBuiltin ''Object.prototype.__lookupSetter__'')]"

text \<open>\<open>obj[key]\<close> on an object literal: its own property, else the inherited one, else \<open>undefined\<close>.\<close>

definition object_get :: "(string \<times> js_value) list \<Rightarrow> string \<Rightarrow> js_value" where
  "object_get props key =
     (case map_of props key of
        Some v \<Rightarrow> v
      | None \<Rightarrow> (case map_of Object_prototype key of Some v \<Rightarrow> v | None \<Rightarrow> JUndefined))"

fun truthy :: "js_value \<Rightarrow> bool" where
  "truthy JUndefined = False"
| "truthy JNull = False"
| "truthy (JBool b) = b"
| "truthy (JNum n) = (n \<noteq> NaN \<and> n \<noteq> Finite 0)"
| "truthy (JStr s) = (s \<noteq> [])"
| "truthy (JArr _) = True"
| "truthy (JObj _) = True"
| "truthy (JBuiltin _) = True"

fun nullish :: "js_value \<Rightarrow> bool" where
  "nullish JUndefined = True"
| "nullish JNull = True"
| "nullish _ = False"

text \<open>
  \<open>v.name\<close> on a value that is neither \<open>undefined\<close> nor \<open>null\<close>. For a primitive, an
  array or a built-in only the properties inherited from \<open>Object.prototype\<close> are
  modelled: the names this program reads (\<open>info\<close>, \<open>stake\<close>, \<open>delegation\<close>, \<open>voter\<close>,
  \<open>activationEpoch\<close>, \<open>inAmount\<close>, \<open>outAmount\<close>, \<open>priceImpactPct\<close>, \<open>routePlan\<close>,
  \<open>swapTransaction\<close>, \<open>value\<close>, \<open>err\<close>) are no properties of strings, numbers,
  booleans or arrays.
\<close>

fun lookup_prop :: "js_value \<Rightarrow> string \<Rightarrow> js_value" where
  "lookup_prop (JObj props) name = object_get props name"
| "lookup_prop v name = object_get [] name"

text \<open>\<open>v.name\<close> and \<open>v?.name\<close>.\<close>

definition get_prop :: "js_value \<Rightarrow> string \<Rightarrow> js_error + js_value" where
  "get_prop v name = (if nullish v then Inl (cannot_read v name) else Inr (lookup_prop v name))"

definition optional_get :: "js_value \<Rightarrow> string \<Rightarrow> js_value" where
  "optional_get v name = (if nullish v then JUndefined else lookup_prop v name)"

text \<open>\<open>a || b\<close>.\<close>

definition js_or :: "js_value \<Rightarrow> js_value \<Rightarrow> js_value" where
  "js_or a b = (if truthy a then a else b)"

text \<open>Calling the string method \<open>name\<close> on a value that is no string.\<close>

definition no_string_method :: "js_value \<Rightarrow> string \<Rightarrow> js_error" where
  "no_string_method v name =
     (if nullish v then cannot_read v name
      else JsError ''TypeError'' (name @ '' is not a function''))"

definition TOKENS :: "(string \<times> js_value) list" where
  "TOKENS =
     [(''SOL'', JStr ''So11111111111111111111111111111111111111112''),
      (''USDC'', JStr ''EPjFWdd5AufqSSqeM2qN1xzybapC8G4wEGGkZwyTDt1v''),
      (''USDT'', JStr ''Es9vMFrzaCERmJfrF4H2FYD4KCoNkY11McCe8BenwNYB''),
      (''BONK'', JStr ''DezXAZ8z7PnrnRJjz3wXBoRgixCa6xjnB7YaB1pPB263''),
      (''JUP'', JStr ''JUPyiwrYJFskUPiHa7hkeR8VUtAeFoSYbKedZNsDvCN''),
      (''WIF'', JStr ''EKpQGSJtjMFqKZ9KQanSqYXRcF8fBopzLHYxdM65zcjm''),
      (''PYTH'', JStr ''HZ1JovNiVvGrGNiiYvEozEVgZ58xaU3RKwX8eACQBCt3'')]"

definition VALIDATORS :: "(string \<times> js_value) list" where
  "VALIDATORS =
     [(''jito'', JStr ''J1to1yufRnoWn81KYg1XkTWzmKjnYSnmE2VY8DGUJ9Qv''),
      (''marinade'', JStr ''mrgn28BhocwdAUEenen3Sw2MR9cPKDpLkDvzDdR7DBD''),
      (''solflare'', JStr ''SoLFLaReRVNagJzYYGppSkqzkhmHZ5ZR8EUpzqLEAaL''),
      (''everstake'', JStr ''EverSFw9uN5t1V8kS3ficHUcKffSjwpGzUSGd7mgmSks'')]"

text \<open>\<open>Swapper.resolveMint(tokenOrMint)\<close>.\<close>

definition resolveMint :: "js_value \<Rightarrow> js_error + js_value" where
  "resolveMint tokenOrMint =
     (case tokenOrMint of
        JStr s \<Rightarrow>
          if truthy (object_get TOKENS (toUpperCase s))
          then Inr (object_get TOKENS (toUpperCase s))
          else Inr tokenOrMint
      | _ \<Rightarrow> Inl (no_string_method tokenOrMint ''toUpperCase''))"

text \<open>\<open>Staking.resolveValidator(validatorOrAddress)\<close>.\<close>

definition resolveValidator :: "js_value \<Rightarrow> js_error + js_value" where
  "resolveValidator validatorOrAddress =
     (case validatorOrAddress of
        JStr s \<Rightarrow>
          if truthy (object_get VALIDATORS (toLowerCase s))
          then Inr (object_get VALIDATORS (toLowerCase s))
          else Inr validatorOrAddress
      | _ \<Rightarrow> Inl (no_string_method validatorOrAddress ''toLowerCase''))"

section \<open>Staking module\<close>

text \<open>The constants \<open>StakeProgram.space\<close> and \<open>StakeProgram.programId\<close> of the SDK.\<close>

definition StakeProgram_space :: nat where
  "StakeProgram_space = 200"

definition StakeProgram_programId :: pubkey where
  "StakeProgram_programId = PublicKey ''Stake11111111111111111111111111111111111111''"

record stake_result =
  st_signature :: string
  st_stakeAccount :: string
  st_validator :: string
  st_amount :: js_number
  st_explorerUrl :: string

text \<open>
  \<open>Staking.stake(validatorVoteAccount, amountSol)\<close>. The transaction that
  \<open>StakeProgram.createAccount\<close> returns is kept as one entry with its parameters.
\<close>

definition stake ::
  "sdk \<Rightarrow> wallet \<Rightarrow> world \<Rightarrow> js_value \<Rightarrow> js_number \<Rightarrow> (js_error + stake_result) \<times> world" where
  "stake k wl w validatorVoteAccount amountSol =
     (case resolveValidator validatorVoteAccount of
        Inl e \<Rightarrow> (Inl e, w)
      | Inr resolved \<Rightarrow>
     (case new_PublicKey k resolved of
        Inl e \<Rightarrow> (Inl e, w)
      | Inr voteAccount \<Rightarrow>
          let lamports = Math_floor (js_mul amountSol LAMPORTS_PER_SOL);
              stakeAccount = Keypair_generate k w;
              w1 = w\<lparr>generated := generated w + 1\<rparr>
          in (case getMinimumBalanceForRentExemption k w1 StakeProgram_space of
                Inl e \<Rightarrow> (Inl e, w1)
              | Inr rentExemption \<Rightarrow>
                  let totalLamports = js_add lamports rentExemption;
                      me = publicKey (wallet_keypair wl)
                  in (case StakeProgram_createAccount k me (publicKey stakeAccount)
                             (Authorized me me) (Lockup 0 0 me) totalLamports of
                        Inl e \<Rightarrow> (Inl e, w1)
                      | Inr createStakeAccountTx \<Rightarrow>
                          let delegateTx = StakeProgram_delegate (publicKey stakeAccount) me voteAccount;
                              transaction = [createStakeAccountTx, delegateTx];
                              (r, w2) = sendAndConfirmTransaction k w1 transaction
                                          [wallet_keypair wl, stakeAccount]
                          in (case r of
                                Inl e \<Rightarrow> (Inl e, w2)
                              | Inr signature \<Rightarrow>
                                  (Inr \<lparr>st_signature = signature,
                                        st_stakeAccount = toBase58 (publicKey stakeAccount),
                                        st_validator = toBase58 voteAccount,
                                        st_amount = amountSol,
                                        st_explorerUrl = ''https://solscan.io/tx/'' @ signature\<rparr>,
                                   w2))))))"

record stake_account_summary =
  sa_address :: string
  sa_lamports :: js_number
  sa_sol :: js_number
  sa_state :: string
  sa_validator :: js_value
  sa_activationEpoch :: js_value

text \<open>\<open>account.data.parsed.info\<close>; a \<open>Buffer\<close> has no \<open>parsed\<close> property.\<close>

definition parsed_info :: "account_data \<Rightarrow> js_error + js_value" where
  "parsed_info d =
     (case d of
        RawBuffer \<Rightarrow> Inl (cannot_read JUndefined ''info'')
      | ParsedAccountData parsed \<Rightarrow> get_prop parsed ''info'')"

text \<open>The callback that \<open>getStakeAccounts\<close> maps over the accounts.\<close>

definition summarize :: "pubkey \<times> account_info \<Rightarrow> js_error + stake_account_summary" where
  "summarize entry =
     (case entry of (pubkey, account) \<Rightarrow>
     (case parsed_info (data account) of
        Inl e \<Rightarrow> Inl e
      | Inr info \<Rightarrow>
     (case get_prop info ''stake'' of
        Inl e \<Rightarrow> Inl e
      | Inr stake_field \<Rightarrow>
          let delegation = optional_get stake_field ''delegation''
          in Inr \<lparr>sa_address = toBase58 pubkey,
                  sa_lamports = lamports account,
                  sa_sol = js_div (lamports account) LAMPORTS_PER_SOL,
                  sa_state = (if truthy delegation then ''delegated'' else ''inactive''),
                  sa_validator = js_or (optional_get delegation ''voter'') JNull,
                  sa_activationEpoch = js_or (optional_get delegation ''activationEpoch'') JNull\<rparr>)))"

text \<open>\<open>Array.prototype.map\<close> with a callback that can throw: the first throw ends the call.\<close>

fun map_throwing :: "('a \<Rightarrow> js_error + 'b) \<Rightarrow> 'a list \<Rightarrow> js_error + 'b list" where
  "map_throwing f [] = Inr []"
| "map_throwing f (x # xs) =
     (case f x of
        Inl e \<Rightarrow> Inl e
      | Inr y \<Rightarrow> (case map_throwing f xs of Inl e \<Rightarrow> Inl e | Inr ys \<Rightarrow> Inr (y # ys)))"

text \<open>\<open>Staking.getStakeAccounts()\<close>, with its filter \<open>memcmp\<close> at offset 12.\<close>

definition getStakeAccounts :: "sdk \<Rightarrow> wallet \<Rightarrow> world \<Rightarrow> js_error + stake_account_summary list" where
  "getStakeAccounts k wl w =
     (case getParsedProgramAccounts k w StakeProgram_programId
             (12, toBase58 (publicKey (wallet_keypair wl))) of
        Inl e \<Rightarrow> Inl e
      | Inr stakeAccounts \<Rightarrow> map_throwing summarize stakeAccounts)"

record unstake_result =
  un_signature :: string
  un_stakeAccount :: string
  un_status :: string
  un_note :: string
  un_explorerUrl :: string

text \<open>\<open>Staking.unstake(stakeAccountAddress)\<close>.\<close>

definition unstake ::
  "sdk \<Rightarrow> wallet \<Rightarrow> world \<Rightarrow> string \<Rightarrow> (js_error + unstake_result) \<times> world" where
  "unstake k wl w stakeAccountAddress =
     (case new_PublicKey k (JStr stakeAccountAddress) of
        Inl e \<Rightarrow> (Inl e, w)
      | Inr stakeAccount \<Rightarrow>
          let transaction = [StakeProgram_deactivate stakeAccount (publicKey (wallet_keypair wl))];
              (r, w') = sendAndConfirmTransaction k w transaction [wallet_keypair wl]
          in (case r of
                Inl e \<Rightarrow> (Inl e, w')
              | Inr signature \<Rightarrow>
                  (Inr \<lparr>un_signature = signature, un_stakeAccount = stakeAccountAddress,
                        un_status = ''deactivating'',
                        un_note = ''Stake will be withdrawable after the current epoch ends'',
                        un_explorerUrl = ''https://solscan.io/tx/'' @ signature\<rparr>, w')))"

record withdraw_result =
  wd_signature :: string
  wd_stakeAccount :: string
  wd_withdrawn :: js_number
  wd_explorerUrl :: string

text \<open>\<open>Staking.withdraw(stakeAccountAddress)\<close>.\<close>

definition withdraw ::
  "sdk \<Rightarrow> wallet \<Rightarrow> world \<Rightarrow> string \<Rightarrow> (js_error + withdraw_result) \<times> world" where
  "withdraw k wl w stakeAccountAddress =
     (case new_PublicKey k (JStr stakeAccountAddress) of
        Inl e \<Rightarrow> (Inl e, w)
      | Inr stakeAccount \<Rightarrow>
     (case getBalance k w stakeAccount of
        Inl e \<Rightarrow> (Inl e, w)
      | Inr stakeBalance \<Rightarrow>
          let me = publicKey (wallet_keypair wl);
              transaction = [StakeProgram_withdraw stakeAccount me me stakeBalance];
              (r, w') = sendAndConfirmTransaction k w transaction [wallet_keypair wl]
          in (case r of
                Inl e \<Rightarrow> (Inl e, w')
              | Inr signature \<Rightarrow>
                  (Inr \<lparr>wd_signature = signature, wd_stakeAccount = stakeAccountAddress,
                        wd_withdrawn = js_div stakeBalance LAMPORTS_PER_SOL,
                        wd_explorerUrl = ''https://solscan.io/tx/'' @ signature\<rparr>, w'))))"

section \<open>HTTP\<close>

text \<open>\<open>fetch(url, options)\<close> and \<open>response.ok\<close>.\<close>

definition fetch :: "sdk \<Rightarrow> world \<Rightarrow> http_request \<Rightarrow> (js_error + http_response) \<times> world" where
  "fetch k w request = (http_fetch k w request, w\<lparr>fetched := fetched w @ [request]\<rparr>)"

definition ok :: "http_response \<Rightarrow> bool" where
  "ok response = (200 \<le> status response \<and> status response \<le> 299)"

section \<open>Swap module\<close>

definition JUPITER_API :: string where
  "JUPITER_API = ''https://quote-api.jup.ag/v6''"

record quote_record =
  q_inputMint :: js_value
  q_outputMint :: js_value
  q_inAmount :: js_value
  q_outAmount :: js_value
  q_priceImpactPct :: js_value
  q_routePlan :: js_value
  q_raw :: js_value

text \<open>The conversion to a string that \<open>URLSearchParams\<close> applies to each value.\<close>

definition String_of :: "sdk \<Rightarrow> js_value \<Rightarrow> js_error + string" where
  "String_of k v = (case v of JUndefined \<Rightarrow> Inr ''undefined'' | JNull \<Rightarrow> Inr ''null'' | _ \<Rightarrow> toString k v)"

text \<open>
  The request of \<open>getQuote\<close>: a GET of \<open>JUPITER_API/quote\<close> with the four parameters as
  its query (kept as pairs; their percent-encoding into the URL is not modelled).
\<close>

definition quote_request :: "string \<Rightarrow> string \<Rightarrow> string \<Rightarrow> string \<Rightarrow> http_request" where
  "quote_request inputMintAddr outputMintAddr amount_text slippage_text =
     \<lparr>req_method = ''GET'', req_url = JUPITER_API @ ''/quote'',
      req_query = [(''inputMint'', inputMintAddr), (''outputMint'', outputMintAddr),
                   (''amount'', amount_text), (''slippageBps'', slippage_text)],
      req_headers = [], req_body = None\<rparr>"

text \<open>What \<open>getQuote\<close> does with the response of the quote service.\<close>

definition quote_of_response ::
  "js_value \<Rightarrow> js_value \<Rightarrow> http_response \<Rightarrow> js_error + quote_record" where
  "quote_of_response inputMintAddr outputMintAddr response =
     (if \<not> ok response
      then (case text_result response of
              Inl e \<Rightarrow> Inl e
            | Inr error \<Rightarrow> Inl (JsError ''Error'' (''Quote failed: '' @ error)))
      else (case json_result response of
              Inl e \<Rightarrow> Inl e
            | Inr quote \<Rightarrow>
                if nullish quote then Inl (cannot_read quote ''inAmount'')
                else Inr \<lparr>q_inputMint = inputMintAddr, q_outputMint = outputMintAddr,
                          q_inAmount = lookup_prop quote ''inAmount'',
                          q_outAmount = lookup_prop quote ''outAmount'',
                          q_priceImpactPct = lookup_prop quote ''priceImpactPct'',
                          q_routePlan = lookup_prop quote ''routePlan'',
                          q_raw = quote\<rparr>))"

text \<open>
  \<open>Swapper.getQuote(inputMint, outputMint, amount, slippageBps = 50)\<close>; the default
  applies to an \<open>undefined\<close> argument.
\<close>

definition getQuote ::
  "sdk \<Rightarrow> world \<Rightarrow> js_value \<Rightarrow> js_value \<Rightarrow> js_value \<Rightarrow> js_value
     \<Rightarrow> (js_error + quote_record) \<times> world" where
  "getQuote k w inputMint outputMint amt slippageBps =
     (case resolveMint inputMint of
        Inl e \<Rightarrow> (Inl e, w)
      | Inr inputMintAddr \<Rightarrow>
     (case resolveMint outputMint of
        Inl e \<Rightarrow> (Inl e, w)
      | Inr outputMintAddr \<Rightarrow>
     (case toString k amt of
        Inl e \<Rightarrow> (Inl e, w)
      | Inr amount_text \<Rightarrow>
     (case toString k (if slippageBps = JUndefined then JNum (Finite 50) else slippageBps) of
        Inl e \<Rightarrow> (Inl e, w)
      | Inr slippage_text \<Rightarrow>
     (case String_of k inputMintAddr of
        Inl e \<Rightarrow> (Inl e, w)
      | Inr input_text \<Rightarrow>
     (case String_of k outputMintAddr of
        Inl e \<Rightarrow> (Inl e, w)
      | Inr output_text \<Rightarrow>
          let (r, w') = fetch k w (quote_request input_text output_text amount_text slippage_text)
          in (case r of
                Inl e \<Rightarrow> (Inl e, w')
              | Inr response \<Rightarrow>
                  (quote_of_response inputMintAddr outputMintAddr response, w'))))))))"

record swap_result =
  sw_signature :: string
  sw_inputMint :: js_value
  sw_outputMint :: js_value
  sw_inAmount :: js_value
  sw_outAmount :: js_value
  sw_explorerUrl :: string

definition swap_request :: "wallet \<Rightarrow> quote_record \<Rightarrow> http_request" where
  "swap_request wl quote =
     \<lparr>req_method = ''POST'', req_url = JUPITER_API @ ''/swap'', req_query = [],
      req_headers = [(''Content-Type'', ''application/json'')],
      req_body = Some (JObj [(''quoteResponse'', q_raw quote),
                             (''userPublicKey'', JStr (address wl)),
                             (''wrapAndUnwrapSol'', JBool True)])\<rparr>"

text \<open>What \<open>swap\<close> does with the response of the swap-build service: the serialised transaction.\<close>

definition transaction_of_response :: "http_response \<Rightarrow> js_error + js_value" where
  "transaction_of_response swapResponse =
     (if \<not> ok swapResponse
      then (case text_result swapResponse of
              Inl e \<Rightarrow> Inl e
            | Inr error \<Rightarrow> Inl (JsError ''Error'' (''Swap transaction failed: '' @ error)))
      else (case json_result swapResponse of
              Inl e \<Rightarrow> Inl e
            | Inr body \<Rightarrow> get_prop body ''swapTransaction''))"

definition sendTransaction ::
  "sdk \<Rightarrow> world \<Rightarrow> versioned_transaction \<Rightarrow> send_options \<Rightarrow> (js_error + string) \<times> world" where
  "sendTransaction k w tx opts =
     (rpc_sendTransaction k w tx opts, w\<lparr>sent_versioned := sent_versioned w @ [(tx, opts)]\<rparr>)"

text \<open>The end of \<open>swap\<close>: deserialise, sign, send, confirm.\<close>

definition sign_send_confirm ::
  "sdk \<Rightarrow> wallet \<Rightarrow> world \<Rightarrow> quote_record \<Rightarrow> js_value \<Rightarrow> (js_error + swap_result) \<times> world" where
  "sign_send_confirm k wl w quote swapTransaction =
     (case VersionedTransaction_deserialize k swapTransaction of
        Inl e \<Rightarrow> (Inl e, w)
      | Inr transaction \<Rightarrow>
     (case sign k transaction [wallet_keypair wl] of
        Inl e \<Rightarrow> (Inl e, w)
      | Inr signed \<Rightarrow>
          let (r, w') = sendTransaction k w signed \<lparr>maxRetries = 3, skipPreflight = False\<rparr>
          in (case r of
                Inl e \<Rightarrow> (Inl e, w')
              | Inr signature \<Rightarrow>
             (case rpc_confirmTransaction k w' signature of
                Inl e \<Rightarrow> (Inl e, w')
              | Inr confirmation \<Rightarrow>
             (case get_prop confirmation ''value'' of
                Inl e \<Rightarrow> (Inl e, w')
              | Inr val \<Rightarrow>
             (case get_prop val ''err'' of
                Inl e \<Rightarrow> (Inl e, w')
              | Inr err \<Rightarrow>
                  if truthy err
                  then (Inl (JsError ''Error'' (''Transaction failed: '' @ JSON_stringify k err)), w')
                  else (Inr \<lparr>sw_signature = signature, sw_inputMint = q_inputMint quote,
                              sw_outputMint = q_outputMint quote, sw_inAmount = q_inAmount quote,
                              sw_outAmount = q_outAmount quote,
                              sw_explorerUrl = ''https://solscan.io/tx/'' @ signature\<rparr>, w')))))))"

text \<open>\<open>Swapper.swap(inputMint, outputMint, amount, slippageBps = 50)\<close>.\<close>

definition swap ::
  "sdk \<Rightarrow> wallet \<Rightarrow> world \<Rightarrow> js_value \<Rightarrow> js_value \<Rightarrow> js_value \<Rightarrow> js_value
     \<Rightarrow> (js_error + swap_result) \<times> world" where
  "swap k wl w inputMint outputMint amt slippageBps =
     (let (q, w1) = getQuote k w inputMint outputMint amt slippageBps
      in (case q of
            Inl e \<Rightarrow> (Inl e, w1)
          | Inr quote \<Rightarrow>
              let (r, w2) = fetch k w1 (swap_request wl quote)
              in (case r of
                    Inl e \<Rightarrow> (Inl e, w2)
                  | Inr swapResponse \<Rightarrow>
                 (case transaction_of_response swapResponse of
                    Inl e \<Rightarrow> (Inl e, w2)
                  | Inr swapTransaction \<Rightarrow> sign_send_confirm k wl w2 quote swapTransaction))))"

text \<open>
  \<open>Math.pow(10, decimals)\<close> for the two exponents of \<open>getPrice\<close>, and \<open>Number(v)\<close>; the
  conversion of a string and of an object are parameters.
\<close>

definition Math_pow10 :: "nat \<Rightarrow> js_number" where
  "Math_pow10 decimals = fl (10 ^ decimals)"

definition Number_of :: "sdk \<Rightarrow> js_value \<Rightarrow> js_number" where
  "Number_of k v = (case v of
       JNum n \<Rightarrow> n
     | JStr s \<Rightarrow> StringToNumber k s
     | JUndefined \<Rightarrow> NaN
     | JNull \<Rightarrow> Finite 0
     | JBool b \<Rightarrow> Finite (if b then 1 else 0)
     | _ \<Rightarrow> ToNumber_other k v)"

text \<open>The text of a string in a template literal.\<close>

fun template_text :: "js_value \<Rightarrow> string" where
  "template_text (JStr s) = s"
| "template_text _ = []"

text \<open>
  \<open>Swapper.getPrice(tokenMint)\<close>: the body of the \<open>try\<close>, then the whole. The call gets
  past \<open>resolveMint\<close> only for a string, whose text the \<open>catch\<close> puts in its message.
\<close>

definition getPrice_try :: "sdk \<Rightarrow> world \<Rightarrow> js_value \<Rightarrow> js_number \<Rightarrow> (js_error + js_number) \<times> world" where
  "getPrice_try k w mint amt =
     (case toString k (JNum amt) of
        Inl e \<Rightarrow> (Inl e, w)
      | Inr amount_text \<Rightarrow>
          let (q, w') = getQuote k w mint (JStr ''USDC'') (JStr amount_text) JUndefined
          in (case q of
                Inl e \<Rightarrow> (Inl e, w')
              | Inr quote \<Rightarrow> (Inr (js_div (Number_of k (q_outAmount quote)) (Finite 1000000)), w')))"

definition getPrice :: "sdk \<Rightarrow> world \<Rightarrow> js_value \<Rightarrow> (js_error + js_number) \<times> world" where
  "getPrice k w tokenMint =
     (case resolveMint tokenMint of
        Inl e \<Rightarrow> (Inl e, w)
      | Inr mint \<Rightarrow>
          let decimals = (if mint = object_get TOKENS ''SOL'' then 9 else 6);
              amt = Math_pow10 decimals;
              (r, w') = getPrice_try k w mint amt
          in (case r of
                Inr price \<Rightarrow> (Inr price, w')
              | Inl e \<Rightarrow>
                  (Inl (JsError ''Error''
                     (''Could not get price for '' @ template_text tokenMint @ '': '' @ err_message e)),
                   w')))"

section \<open>AgentDEX client\<close>

record agentdex_client =
  baseUrl :: string
  apiKey :: string
  agentId :: js_value

definition headers :: "agentdex_client \<Rightarrow> (string \<times> string) list" where
  "headers c = [(''Authorization'', ''Bearer '' @ apiKey c), (''Content-Type'', ''application/json'')]"

text \<open>
  \<open>AgentDEXClient.request(method, path, body)\<close>; \<open>None\<close> is an \<open>undefined\<close> body, and a
  body is kept as the value that \<open>JSON.stringify\<close> is given.
\<close>

definition request ::
  "sdk \<Rightarrow> agentdex_client \<Rightarrow> world \<Rightarrow> string \<Rightarrow> string \<Rightarrow> js_value option
     \<Rightarrow> (js_error + js_value) \<times> world" where
  "request k c w method path body =
     (let url = baseUrl c @ path;
          opts = \<lparr>req_method = method, req_url = url, req_query = [],
                  req_headers = headers c, req_body = body\<rparr>;
          (r, w') = fetch k w opts
      in (case r of
            Inl e \<Rightarrow> (Inl e, w')
          | Inr res \<Rightarrow>
              if \<not> ok res
              then let text = (case text_result res of Inl e \<Rightarrow> [] | Inr t \<Rightarrow> t)
                   in (Inl (JsError ''Error''
                         (''AgentDEX API '' @ method @ '' '' @ path @ '' failed (''
                            @ digits_of_nat (status res) @ ''): '' @ text)), w')
              else (json_result res, w')))"

text \<open>The quote, swap and portfolio calls of the client.\<close>

definition agentdex_getQuote ::
  "sdk \<Rightarrow> agentdex_client \<Rightarrow> world \<Rightarrow> string \<Rightarrow> string \<Rightarrow> string \<Rightarrow> string
     \<Rightarrow> (js_error + js_value) \<times> world" where
  "agentdex_getQuote k c w inputMint outputMint amount_text slippage_text =
     request k c w ''GET''
       (''/api/v1/quote?'' @ URLSearchParams_toString k
          [(''inputMint'', inputMint), (''outputMint'', outputMint),
           (''amount'', amount_text), (''slippageBps'', slippage_text)])
       None"

definition agentdex_swap ::
  "sdk \<Rightarrow> agentdex_client \<Rightarrow> world \<Rightarrow> string \<Rightarrow> string \<Rightarrow> string \<Rightarrow> js_value
     \<Rightarrow> (js_error + js_value) \<times> world" where
  "agentdex_swap k c w inputMint outputMint amount_text slippageBps =
     request k c w ''POST'' ''/api/v1/swap''
       (Some (JObj [(''inputMint'', JStr inputMint), (''outputMint'', JStr outputMint),
                    (''amount'', JStr amount_text), (''slippageBps'', slippageBps),
                    (''agentId'', agentId c)]))"

definition getPortfolio ::
  "sdk \<Rightarrow> agentdex_client \<Rightarrow> world \<Rightarrow> string \<Rightarrow> (js_error + js_value) \<times> world" where
  "getPortfolio k c w wallet_address =
     request k c w ''GET'' (''/api/v1/portfolio/'' @ wallet_address) None"

text \<open>\<open>String.prototype.includes\<close>.\<close>

fun str_includes :: "string \<Rightarrow> string \<Rightarrow> bool" where
  "str_includes [] part = (part = [])"
| "str_includes (c # cs) part = (take (length part) (c # cs) = part \<or> str_includes cs part)"

section \<open>Examples\<close>

fun is_create_account :: "instruction \<Rightarrow> bool" where
  "is_create_account (createAssociatedTokenAccountInstruction _ _ _ _) = True"
| "is_create_account _ = False"

text \<open>
  An SDK for examples: every string is a valid address, the token account of
  \<open>''absent''\<close> does not exist, reading the one of \<open>''broken''\<close> fails otherwise, the
  one of \<open>''whale''\<close> holds \<open>2^53 + 1\<close> base units and any other holds 1500.
\<close>

definition ata_of :: "pubkey \<Rightarrow> pubkey \<Rightarrow> pubkey" where
  "ata_of mint owner = PublicKey (toBase58 owner)"

definition example_sdk :: sdk where
  "example_sdk = \<lparr>
     new_PublicKey = (\<lambda>v. case v of JStr s \<Rightarrow> Inr (PublicKey s)
                               | _ \<Rightarrow> Inl (JsError ''Error'' ''Invalid public key input'')),
     getAssociatedTokenAddress = (\<lambda>mint owner. Inr (ata_of mint owner)),
     getAccount = (\<lambda>w a.
        if a = PublicKey ''absent'' then Inl (JsError ''TokenAccountNotFoundError'' [])
        else if a = PublicKey ''broken'' then Inl (JsError ''TokenInvalidAccountOwnerError'' [])
        else if a = PublicKey ''whale'' then Inr \<lparr>amount = 9007199254740993\<rparr>
        else Inr \<lparr>amount = 1500\<rparr>),
     rpc_sendAndConfirm = (\<lambda>w tx signers. Inr ''sig''),
     getBalance = (\<lambda>w a. Inr (Finite 3282880)),
     getMinimumBalanceForRentExemption = (\<lambda>w n. Inr (Finite 2282880)),
     getParsedProgramAccounts = (\<lambda>w prog flt. Inr []),
     Keypair_generate = (\<lambda>w. Keypair (PublicKey (''fresh'' @ replicate (generated w) CHR ''x''))),
     http_fetch = (\<lambda>w rq. Inl (JsError ''TypeError'' ''fetch failed'')),
     VersionedTransaction_deserialize = (\<lambda>v. Inr (VersionedTransaction v [])),
     sign = (\<lambda>tx signers. case tx of VersionedTransaction v old \<Rightarrow>
                Inr (VersionedTransaction v (old @ signers))),
     rpc_sendTransaction = (\<lambda>w tx opts. Inr ''sig''),
     rpc_confirmTransaction = (\<lambda>w sg. Inr (JObj [(''value'', JObj [(''err'', JNull)])])),
     StringToNumber = (\<lambda>s. if s = ''152340000'' then Finite 152340000 else NaN),
     ToNumber_other = (\<lambda>v. NaN),
     JSON_stringify = (\<lambda>v. ''{}''),
     URLSearchParams_toString =
       (\<lambda>ps. concat (map (\<lambda>(a, b). a @ ''='' @ b @ ''&'') ps)),
     BigInt = (\<lambda>v. case v of JNum (Finite r) \<Rightarrow> Inr \<lfloor>r\<rfloor> | _ \<Rightarrow> Inl (JsError ''SyntaxError'' [])),
     transfer_rejects = (\<lambda>a b n. None),
     createAccount_rejects = (\<lambda>a b auth lock n. None),
     ToString_other = (\<lambda>v. Inr ''[object Object]'')\<rparr>"

definition example_wallet :: wallet where
  "example_wallet = \<lparr>wallet_keypair = Keypair (PublicKey ''me'')\<rparr>"

definition fresh_world :: world where
  "fresh_world = \<lparr>sent = [], sent_versioned = [], fetched = [], generated = 0\<rparr>"

text \<open>An SDK whose account scan answers the given accounts.\<close>

definition scan_sdk :: "(pubkey \<times> account_info) list \<Rightarrow> sdk" where
  "scan_sdk accounts = example_sdk\<lparr>getParsedProgramAccounts := (\<lambda>w prog flt. Inr accounts)\<rparr>"

definition parsed_stake_account :: "js_value \<Rightarrow> account_info" where
  "parsed_stake_account info =
     \<lparr>lamports = Finite 3282880, data = ParsedAccountData (JObj [(''info'', info)])\<rparr>"

text \<open>An SDK whose HTTP service answers every request with the given response.\<close>

definition http_sdk :: "http_response \<Rightarrow> sdk" where
  "http_sdk response = example_sdk\<lparr>http_fetch := (\<lambda>w rq. Inr response)\<rparr>"

definition quote_response :: http_response where
  "quote_response =
     \<lparr>status = 200, text_result = Inr ''{...}'',
      json_result = Inr (JObj [(''inAmount'', JStr ''1000000000''),
                               (''outAmount'', JStr ''152340000''),
                               (''priceImpactPct'', JStr ''0.0001''),
                               (''routePlan'', JArr [])])\<rparr>"

definition failure_response :: "nat \<Rightarrow> http_response" where
  "failure_response code =
     \<lparr>status = code, text_result = Inr ''boom'',
      json_result = Inl (JsError ''SyntaxError'' ''Unexpected token b in JSON'')\<rparr>"

definition null_response :: http_response where
  "null_response = \<lparr>status = 200, text_result = Inr ''null'', json_result = Inr JNull\<rparr>"

text \<open>An SDK whose quote service answers and whose swap-build service fails.\<close>

definition swap_failure_sdk :: sdk where
  "swap_failure_sdk = example_sdk\<lparr>http_fetch :=
     (\<lambda>w rq. if req_method rq = ''GET'' then Inr quote_response else Inr (failure_response 400))\<rparr>"

definition example_client :: agentdex_client where
  "example_client = \<lparr>baseUrl = ''https://api.agentdex.com'', apiKey = ''adx_test'', agentId = JUndefined\<rparr>"

definition wallet_of :: "string \<Rightarrow> wallet" where
  "wallet_of a = \<lparr>wallet_keypair = Keypair (PublicKey a)\<rparr>"

section \<open>Properties of the number model\<close>

lemma round_half_even_of_int: "round_half_even (of_int n) = n"
  by (simp add: round_half_even_def)

lemma quotient_of_abs_pos:
  assumes "x \<noteq> 0" and pq: "quotient_of \<bar>x\<bar> = (p, q)"
  shows "0 < p" and "0 < q" and "\<bar>x\<bar> = of_int p / of_int q"
proof -
  show q: "0 < q" using pq by (rule quotient_of_denom_pos)
  show xe: "\<bar>x\<bar> = of_int p / of_int q" using pq by (rule quotient_of_div)
  have "0 < \<bar>x\<bar>" using assms(1) by simp
  then have "0 < (of_int p :: rat) / of_int q" using xe by simp
  then have "0 < (of_int p :: rat)" using q by (simp add: zero_less_divide_iff)
  then show "0 < p" by simp
qed

lemma binade_lower:
  assumes "x \<noteq> 0"
  shows "2 powi (binade x) \<le> \<bar>x\<bar>"
proof -
  obtain p q where pq: "quotient_of \<bar>x\<bar> = (p, q)" by (cases "quotient_of \<bar>x\<bar>")
  note f = quotient_of_abs_pos[OF assms pq]
  let ?d = "bitlen p - bitlen q"
  have bp: "2 ^ nat (bitlen p - 1) \<le> p" using bitlen_bounds[OF f(1)] by simp
  have bq: "q < 2 ^ nat (bitlen q)" using bitlen_bounds[OF f(2)] by simp
  have bp1: "1 \<le> bitlen p" using f(1) by (simp add: bitlen_alt_def)
  have bq0: "0 \<le> bitlen q" by (rule bitlen_nonneg)
  have a: "(2::rat) ^ nat (bitlen p - 1) \<le> of_int p"
  proof -
    have "(of_int (2 ^ nat (bitlen p - 1)) :: rat) \<le> of_int p" using bp by (simp only: of_int_le_iff)
    then show ?thesis by simp
  qed
  have b: "(of_int q :: rat) \<le> 2 ^ nat (bitlen q)"
  proof -
    have "(of_int q :: rat) \<le> of_int (2 ^ nat (bitlen q))" using bq by (simp only: of_int_le_iff)
    then show ?thesis by simp
  qed
  have e1: "(2::rat) powi (bitlen p - 1) = 2 ^ nat (bitlen p - 1)"
    using bp1 by (simp add: power_int_def)
  have e2: "(2::rat) powi (bitlen q) = 2 ^ nat (bitlen q)"
    using bq0 by (simp add: power_int_def)
  have "(2::rat) powi (?d - 1) = 2 powi ((bitlen p - 1) - bitlen q)" by (simp add: algebra_simps)
  also have "\<dots> = 2 powi (bitlen p - 1) / 2 powi (bitlen q)"
    by (rule power_int_diff) simp
  also have "\<dots> = 2 ^ nat (bitlen p - 1) / 2 ^ nat (bitlen q)"
    by (simp only: e1 e2)
  also have "\<dots> \<le> of_int p / of_int q"
    by (rule frac_le) (use a b f(1,2) in simp_all)
  finally have low: "(2::rat) powi (?d - 1) \<le> \<bar>x\<bar>" using f(3) by simp
  show ?thesis
  proof (cases "2 powi ?d \<le> \<bar>x\<bar>")
    case True
    then show ?thesis by (simp add: binade_def pq)
  next
    case False
    then show ?thesis using low by (simp add: binade_def pq)
  qed
qed

lemma fl_exact_step:
  assumes x0: "x \<noteq> 0" and xi: "x / 2 powi (e - 52) = of_int m" and small: "\<bar>x\<bar> < 2 powi 1024"
    and e: "e = max (binade x) (- 1022)"
  shows "fl x = Finite x"
proof -
  have u: "(2::rat) powi (e - 52) \<noteq> 0" by simp
  have y: "of_int (round_half_even (x / 2 powi (e - 52))) * 2 powi (e - 52) = x"
    using xi u by (simp add: round_half_even_of_int field_simps)
  show ?thesis
    using x0 small y unfolding fl_def Let_def e[symmetric] by simp
qed

lemma fl_of_int_exact:
  assumes "\<bar>n\<bar> \<le> 2 ^ 53"
  shows "fl (of_int n) = Finite (of_int n)"
proof (cases "n = 0")
  case True
  then show ?thesis by (simp add: fl_def)
next
  case False
  let ?x = "of_int n :: rat"
  define e where "e = max (binade ?x) (- 1022)"
  have x0: "?x \<noteq> 0" using False by simp
  have ax: "\<bar>?x\<bar> \<le> 2 ^ 53"
  proof -
    have "\<bar>?x\<bar> = of_int \<bar>n\<bar>" by simp
    also have "\<dots> \<le> of_int (2 ^ 53)" using assms by (simp only: of_int_le_iff)
    finally show ?thesis by simp
  qed
  have small: "\<bar>?x\<bar> < 2 powi 1024"
  proof -
    have "(2::rat) ^ 53 < 2 ^ 1024" by (rule power_strict_increasing) auto
    with ax show ?thesis by simp
  qed
  have low: "2 powi (binade ?x) \<le> \<bar>?x\<bar>" by (rule binade_lower[OF x0])
  have e53: "e \<le> 53"
  proof (rule ccontr)
    assume "\<not> e \<le> 53"
    then have "54 \<le> binade ?x" by (simp add: e_def)
    then have "(2::rat) powi 54 \<le> 2 powi (binade ?x)" by (intro power_int_increasing) auto
    with low ax show False by simp
  qed
  have "\<exists>m. ?x / 2 powi (e - 52) = of_int m"
  proof (cases "e \<le> 52")
    case True
    define k where "k = nat (52 - e)"
    have ek: "e - 52 = - int k" using True by (simp add: k_def)
    have "(2::rat) powi (e - 52) = inverse (2 ^ k)"
      unfolding ek by (simp add: power_int_minus)
    then have "?x / 2 powi (e - 52) = ?x * 2 ^ k"
      by (simp add: divide_inverse)
    also have "\<dots> = of_int (n * 2 ^ k)" by simp
    finally show ?thesis by blast
  next
    case False
    with e53 have e: "e = 53" by simp
    then have "binade ?x = 53" by (simp add: e_def max_def split: if_splits)
    with low have "2 ^ 53 \<le> \<bar>?x\<bar>" by simp
    with ax have "\<bar>?x\<bar> = 2 ^ 53" by simp
    then have "\<bar>n\<bar> = 2 ^ 53"
      by (metis of_int_abs of_int_eq_iff of_int_numeral of_int_power)
    then have "n = 2 ^ 53 \<or> n = - (2 ^ 53)" by (simp only: abs_if split: if_splits) auto
    then have "n = 2 * (n div 2)" by auto
    then have "?x = 2 * of_int (n div 2)"
      by (metis of_int_mult of_int_numeral)
    then have "?x / 2 powi (e - 52) = of_int (n div 2)" using e by simp
    then show ?thesis by blast
  qed
  then obtain m where m: "?x / 2 powi (e - 52) = of_int m" by blast
  show ?thesis by (rule fl_exact_step[OF x0 m small e_def])
qed


lemma binade_upper:
  assumes "x \<noteq> 0"
  shows "\<bar>x\<bar> < 2 powi (binade x + 1)"
proof -
  obtain p q where pq: "quotient_of \<bar>x\<bar> = (p, q)" by (cases "quotient_of \<bar>x\<bar>")
  note f = quotient_of_abs_pos[OF assms pq]
  let ?d = "bitlen p - bitlen q"
  have bp: "p < 2 ^ nat (bitlen p)" using bitlen_bounds[OF f(1)] by simp
  have bq: "2 ^ nat (bitlen q - 1) \<le> q" using bitlen_bounds[OF f(2)] by simp
  have bq1: "1 \<le> bitlen q" using f(2) by (simp add: bitlen_alt_def)
  have bp0: "0 \<le> bitlen p" by (rule bitlen_nonneg)
  have a: "(of_int p :: rat) < 2 ^ nat (bitlen p)"
  proof -
    have "(of_int p :: rat) < of_int (2 ^ nat (bitlen p))" using bp by (simp only: of_int_less_iff)
    then show ?thesis by simp
  qed
  have b: "(2::rat) ^ nat (bitlen q - 1) \<le> of_int q"
  proof -
    have "(of_int (2 ^ nat (bitlen q - 1)) :: rat) \<le> of_int q" using bq by (simp only: of_int_le_iff)
    then show ?thesis by simp
  qed
  have e1: "(2::rat) powi (bitlen p) = 2 ^ nat (bitlen p)"
    using bp0 by (simp add: power_int_def)
  have e2: "(2::rat) powi (bitlen q - 1) = 2 ^ nat (bitlen q - 1)"
    using bq1 by (simp add: power_int_def)
  have "\<bar>x\<bar> = of_int p / of_int q" by (rule f(3))
  also have "\<dots> < 2 ^ nat (bitlen p) / 2 ^ nat (bitlen q - 1)"
    by (rule frac_less) (use a b f(1,2) in simp_all)
  also have "\<dots> = 2 powi (bitlen p) / 2 powi (bitlen q - 1)"
    by (simp only: e1 e2)
  also have "\<dots> = 2 powi (bitlen p - (bitlen q - 1))"
    by (rule power_int_diff[symmetric]) simp
  also have "\<dots> = 2 powi (?d + 1)" by (simp add: algebra_simps)
  finally have up: "\<bar>x\<bar> < 2 powi (?d + 1)" .
  show ?thesis
  proof (cases "2 powi ?d \<le> \<bar>x\<bar>")
    case True
    then show ?thesis using up by (simp add: binade_def pq)
  next
    case False
    then show ?thesis by (simp add: binade_def pq)
  qed
qed

lemma binade_eqI:
  assumes "2 powi e \<le> \<bar>x\<bar>" and "\<bar>x\<bar> < 2 powi (e + 1)"
  shows "binade x = e"
proof -
  have x0: "x \<noteq> 0"
  proof
    assume "x = 0"
    then have "(2::rat) powi e \<le> 0" using assms(1) by simp
    moreover have "(0::rat) < 2 powi e" by simp
    ultimately show False by simp
  qed
  note l = binade_lower[OF x0] and u = binade_upper[OF x0]
  have "\<not> binade x < e"
  proof
    assume "binade x < e"
    then have "binade x + 1 \<le> e" by simp
    then have "(2::rat) powi (binade x + 1) \<le> 2 powi e" by (intro power_int_increasing) auto
    with u assms(1) show False by simp
  qed
  moreover have "\<not> e < binade x"
  proof
    assume "e < binade x"
    then have "e + 1 \<le> binade x" by simp
    then have "(2::rat) powi (e + 1) \<le> 2 powi (binade x)" by (intro power_int_increasing) auto
    with l assms(2) show False by simp
  qed
  ultimately show ?thesis by simp
qed

lemma fl_unfold:
  assumes "2 powi e \<le> \<bar>x\<bar>" and "\<bar>x\<bar> < 2 powi (e + 1)" and "- 1022 \<le> e"
    and "2 powi (e - 52) = u" and "round_half_even (x / u) = n" and "\<bar>of_int n * u\<bar> < 2 powi 1024"
  shows "fl x = Finite (of_int n * u)"
proof -
  have b: "binade x = e" by (rule binade_eqI[OF assms(1,2)])
  have x0: "x \<noteq> 0" using assms(1)
    by (metis abs_zero not_le zero_less_power_int zero_less_numeral)
  show ?thesis
    using x0 assms(3-6) by (simp add: fl_def b max_def)
qed

lemma round_half_even_nearest:
  assumes "\<bar>m - of_int n\<bar> < 1 / 2"
  shows "round_half_even m = n"
proof -
  have lo: "of_int n - 1 / 2 < m" and hi: "m < of_int n + 1 / 2"
    using assms by linarith+
  have "n - 1 \<le> \<lfloor>m\<rfloor>" using lo by (simp add: le_floor_iff)
  moreover have "\<lfloor>m\<rfloor> \<le> n" using hi by (simp add: floor_le_iff)
  ultimately consider "\<lfloor>m\<rfloor> = n" | "\<lfloor>m\<rfloor> = n - 1" by linarith
  then show ?thesis
  proof cases
    case 1
    then show ?thesis using hi by (simp add: round_half_even_def)
  next
    case 2
    then show ?thesis using lo by (simp add: round_half_even_def)
  qed
qed

lemma round_half_even_tie_down:
  assumes "m = of_int n + 1 / 2" and "even n"
  shows "round_half_even m = n"
proof -
  have "\<lfloor>m\<rfloor> = n" unfolding assms(1) by (simp add: floor_unique)
  then show ?thesis using assms by (simp add: round_half_even_def)
qed

lemma round_half_even_tie_up:
  assumes "m = of_int n - 1 / 2" and "even n"
  shows "round_half_even m = n"
proof -
  have "\<lfloor>m\<rfloor> = n - 1" unfolding assms(1) by (simp add: floor_unique)
  then show ?thesis using assms by (simp add: round_half_even_def)
qed

lemma Number_of_bigint_exact:
  "\<bar>n\<bar> \<le> 2 ^ 53 \<Longrightarrow> Number_of_bigint n = Finite (of_int n)"
  by (simp add: Number_of_bigint_def fl_of_int_exact)

lemma fl_above_safe: "fl 9007199254740993 = Finite 9007199254740992"
  by (rule fl_unfold[where e = 53 and u = 2 and n = 4503599627370496, simplified])
     (simp_all add: round_half_even_tie_down)

lemma fl_literal_a: "fl (1999999999 / 1000000000) = Finite (562949953139837 / 281474976710656)"
  by (rule fl_unfold[where e = 0 and u = "1 / 2 ^ 52" and n = 9007199250237392, simplified])
     (simp_all add: round_half_even_nearest)

lemma fl_literal_b: "fl (1 / 10000000000) = Finite (7737125245533627 / 77371252455336267181195264)"
  by (rule fl_unfold[where e = "-34" and u = "1 / 2 ^ 86" and n = 7737125245533627, simplified])
     (simp_all add: round_half_even_nearest)

lemma fl_sum_ab:
  "fl (562949953139837 / 281474976710656 + 7737125245533627 / 77371252455336267181195264)
     = Finite (1125899906335969 / 562949953421312)"
  by (rule fl_unfold[where e = 0 and u = "1 / 2 ^ 52" and n = 9007199250687752, simplified])
     (simp_all add: round_half_even_nearest)

lemma fl_product_ab:
  "fl (1125899906335969 / 562949953421312 * 1000000000) = Finite (4194303998112563 / 2097152)"
  by (rule fl_unfold[where e = 30 and u = "1 / 2 ^ 22" and n = 8388607996225126, simplified])
     (simp_all add: round_half_even_nearest)

lemma floor_product_ab: "\<lfloor>4194303998112563 / 2097152 :: rat\<rfloor> = 1999999999"
  by (rule floor_unique) simp_all

text \<open>
  The source's \<open>1.999999999 + 1e-10\<close>, then \<open>Math.floor(amount * LAMPORTS_PER_SOL)\<close>.
\<close>

lemma conversion_of_spec_example:
  "Math_floor (js_mul (js_add (fl (1999999999 / 1000000000)) (fl (1 / 10000000000))) LAMPORTS_PER_SOL)
     = Finite 1999999999"
  by (simp only: fl_literal_a fl_literal_b js_add.simps fl_sum_ab LAMPORTS_PER_SOL_def
      js_mul.simps fl_product_ab Math_floor.simps floor_product_ab of_int_numeral)

lemma fl_literal_8_2: "fl (82 / 10) = Finite (2308094809027379 / 281474976710656)"
  by (rule fl_unfold[where e = 3 and u = "1 / 2 ^ 49" and n = 4616189618054758, simplified])
     (simp_all add: round_half_even_nearest)

lemma fl_product_8_2:
  "fl (2308094809027379 / 281474976710656 * 1000000000) = Finite (8598323199999999 / 1048576)"
  by (rule fl_unfold[where e = 32 and u = "1 / 2 ^ 20" and n = 8598323199999999, simplified])
     (simp_all add: round_half_even_nearest)

text \<open>
  \<open>Math.floor(8.2 * LAMPORTS_PER_SOL)\<close> is 8199999999: the product is the double just
  below 8200000000 and is cut, where rounding would give 8200000000.
\<close>

lemma conversion_truncates_8_2:
  "Math_floor (js_mul (fl (82 / 10)) LAMPORTS_PER_SOL) = Finite 8199999999"
proof -
  have h: "\<lfloor>8598323199999999 / 1048576 :: rat\<rfloor> = 8199999999"
    by (rule floor_unique) simp_all
  show ?thesis
    by (simp only: fl_literal_8_2 LAMPORTS_PER_SOL_def js_mul.simps fl_product_8_2
        Math_floor.simps h of_int_numeral)
qed

lemma Math_floor_truncates:
  assumes "x = Finite p"
  shows "Math_floor x = Finite (of_int \<lfloor>p\<rfloor>) \<and> of_int \<lfloor>p\<rfloor> \<le> p \<and> p < of_int \<lfloor>p\<rfloor> + 1"
  using assms floor_correct[of p] by simp

section \<open>Properties of the transfer module\<close>

text \<open>
  C1. In a call \<open>sendToken(toAddress, amount, mintAddress)\<close> that reaches the existence
  check of the destination account \<open>destAta\<close>, the transaction holds an
  account-creation instruction if and only if the check fails with an error named
  \<open>TokenAccountNotFoundError\<close>. When the check fails with any other error, the call
  throws that same error, the transaction is still empty (no transfer instruction was
  built) and nothing was submitted: the world is unchanged.
\<close>

theorem sendToken_creates_account_iff_not_found:
  assumes "new_PublicKey k (JStr toAddress) = Inr toPubkey"
    and "new_PublicKey k (JStr mintAddress) = Inr mintPubkey"
    and "getAssociatedTokenAddress k mintPubkey (publicKey (wallet_keypair wl)) = Inr sourceAta"
    and "getAssociatedTokenAddress k mintPubkey toPubkey = Inr destAta"
    and "sendToken k wl w toAddress amt mintAddress = (tx, r, w')"
  shows "((\<exists>i \<in> set tx. is_create_account i) \<longleftrightarrow>
            (\<exists>e. getAccount k w destAta = Inl e \<and> err_name e = ''TokenAccountNotFoundError''))
       \<and> (\<forall>e. getAccount k w destAta = Inl e \<and> err_name e \<noteq> ''TokenAccountNotFoundError''
              \<longrightarrow> r = Inl e \<and> tx = [] \<and> w' = w)"
proof (cases "getAccount k w destAta")
  case (Inr account)
  then have c: "check_destination k wl w [] destAta toPubkey mintPubkey = Inr []"
    by (simp add: check_destination_def)
  have "\<forall>i \<in> set tx. \<not> is_create_account i"
    using assms c
    by (auto simp: sendToken_def sendAndConfirmTransaction_def Let_def split: sum.splits prod.splits)
  with Inr show ?thesis by auto
next
  case (Inl e)
  show ?thesis
  proof (cases "err_name e = ''TokenAccountNotFoundError''")
    case True
    with Inl have c: "check_destination k wl w [] destAta toPubkey mintPubkey =
        Inr [createAssociatedTokenAccountInstruction (publicKey (wallet_keypair wl)) destAta toPubkey mintPubkey]"
      by (simp add: check_destination_def)
    have "\<exists>i \<in> set tx. is_create_account i"
      using assms c
      by (auto simp: sendToken_def sendAndConfirmTransaction_def Let_def split: sum.splits prod.splits)
    with Inl True show ?thesis by auto
  next
    case False
    with Inl have c: "check_destination k wl w [] destAta toPubkey mintPubkey = Inl e"
      by (simp add: check_destination_def)
    have "r = Inl e \<and> tx = [] \<and> w' = w"
      using assms c by (simp add: sendToken_def)
    with Inl False show ?thesis by auto
  qed
qed

theorem sendToken_creates_account_iff_not_found_witness:
  "(\<exists>i \<in> set (fst (sendToken example_sdk example_wallet fresh_world ''absent'' (JNum (Finite 5)) ''mint'')).
       is_create_account i)
   \<and> sendToken example_sdk example_wallet fresh_world ''broken'' (JNum (Finite 5)) ''mint''
       = ([], Inl (JsError ''TokenInvalidAccountOwnerError'' []), fresh_world)"
proof -
  let ?go = "\<lambda>to. sendToken example_sdk example_wallet fresh_world to (JNum (Finite 5)) ''mint''"
  have k1: "\<And>s. new_PublicKey example_sdk (JStr s) = Inr (PublicKey s)"
    by (simp add: example_sdk_def)
  have k2: "\<And>a. getAssociatedTokenAddress example_sdk (PublicKey ''mint'') a = Inr (PublicKey (toBase58 a))"
    by (simp add: example_sdk_def ata_of_def)
  have k3: "getAssociatedTokenAddress example_sdk (PublicKey ''mint'') (PublicKey ''absent'') = Inr (PublicKey ''absent'')"
    "getAssociatedTokenAddress example_sdk (PublicKey ''mint'') (PublicKey ''broken'') = Inr (PublicKey ''broken'')"
    by (simp_all add: k2)
  have a: "?go ''absent'' = (fst (?go ''absent''), fst (snd (?go ''absent'')), snd (snd (?go ''absent'')))"
    and b: "?go ''broken'' = (fst (?go ''broken''), fst (snd (?go ''broken'')), snd (snd (?go ''broken'')))"
    by simp_all
  have g1: "getAccount example_sdk fresh_world (PublicKey ''absent'') = Inl (JsError ''TokenAccountNotFoundError'' [])"
    and g2: "getAccount example_sdk fresh_world (PublicKey ''broken'') = Inl (JsError ''TokenInvalidAccountOwnerError'' [])"
    by (simp_all add: example_sdk_def)
  from sendToken_creates_account_iff_not_found[OF k1 k1 k2 k3(1) a] g1
  have "\<exists>i \<in> set (fst (?go ''absent'')). is_create_account i" by simp
  moreover from sendToken_creates_account_iff_not_found[OF k1 k1 k2 k3(2) b] g2
  have "fst (snd (?go ''broken'')) = Inl (JsError ''TokenInvalidAccountOwnerError'' [])
        \<and> fst (?go ''broken'') = [] \<and> snd (snd (?go ''broken'')) = fresh_world" by simp
  ultimately show ?thesis by (metis b)
qed

lemma BigInt_of_floor: "x = Finite p \<Longrightarrow> BigInt_of_number (Math_floor x) = Inr \<lfloor>p\<rfloor>"
  by (simp add: BigInt_of_number_def)

lemma BigInt_of_nonfinite:
  assumes "\<forall>p. x \<noteq> Finite p"
  shows "\<exists>e. BigInt_of_number (Math_floor x) = Inl e \<and> err_name e = ''RangeError''"
  using assms by (cases x) (simp_all add: BigInt_of_number_def)

lemma sendSol_sent:
  assumes "new_PublicKey k (JStr toAddress) = Inr toPubkey"
    and "js_mul amountSol LAMPORTS_PER_SOL = Finite p"
    and "transfer_rejects k (publicKey (wallet_keypair wl)) toPubkey \<lfloor>p\<rfloor> = None"
  shows "sent (snd (sendSol k wl w toAddress amountSol)) =
           sent w @ [([Transfer_instruction (publicKey (wallet_keypair wl)) toPubkey
                         (Finite (of_int \<lfloor>p\<rfloor>))],
                      [wallet_keypair wl])]"
  using assms
  by (simp add: sendSol_def SystemProgram_transfer_def BigInt_of_number_def
      sendAndConfirmTransaction_def Let_def split: sum.splits)

lemma sendSol_throws:
  assumes "new_PublicKey k (JStr toAddress) = Inr toPubkey"
    and "SystemProgram_transfer k (publicKey (wallet_keypair wl)) toPubkey
           (Math_floor (js_mul amountSol LAMPORTS_PER_SOL)) = Inl e"
  shows "sendSol k wl w toAddress amountSol = (Inl e, w)"
  using assms by (simp add: sendSol_def Let_def)

lemma stake_sent:
  assumes "resolveValidator validator = Inr resolved"
    and "new_PublicKey k resolved = Inr voteAccount"
    and "getMinimumBalanceForRentExemption k (w\<lparr>generated := generated w + 1\<rparr>) StakeProgram_space
           = Inr rentExemption"
    and "createAccount_rejects k (publicKey (wallet_keypair wl)) (publicKey (Keypair_generate k w))
           (Authorized (publicKey (wallet_keypair wl)) (publicKey (wallet_keypair wl)))
           (Lockup 0 0 (publicKey (wallet_keypair wl)))
           (js_add (Math_floor (js_mul amountSol LAMPORTS_PER_SOL)) rentExemption) = None"
  shows "sent (snd (stake k wl w validator amountSol)) =
           sent w @
           [([CreateAccount_instruction (publicKey (wallet_keypair wl))
                (publicKey (Keypair_generate k w))
                (Authorized (publicKey (wallet_keypair wl)) (publicKey (wallet_keypair wl)))
                (Lockup 0 0 (publicKey (wallet_keypair wl)))
                (js_add (Math_floor (js_mul amountSol LAMPORTS_PER_SOL)) rentExemption),
              StakeProgram_delegate (publicKey (Keypair_generate k w))
                (publicKey (wallet_keypair wl)) voteAccount],
             [wallet_keypair wl, Keypair_generate k w])]"
  using assms
  by (simp add: stake_def StakeProgram_createAccount_def sendAndConfirmTransaction_def Let_def
      split: sum.splits)

lemma resolveValidator_jito:
  "resolveValidator (JStr ''jito'') = Inr (JStr ''J1to1yufRnoWn81KYg1XkTWzmKjnYSnmE2VY8DGUJ9Qv'')"
  by (simp add: resolveValidator_def toLowerCase_def lower_char_def lower_letters_def
      upper_letters_def object_get_def VALIDATORS_def)

lemma fl_numeral_exact:
  "(numeral n :: int) \<le> 2 ^ 53 \<Longrightarrow> fl (numeral n) = Finite (numeral n)"
  using fl_of_int_exact[of "numeral n"] by simp

lemma product_of_double_8_2:
  "js_mul (Finite (2308094809027379 / 281474976710656)) LAMPORTS_PER_SOL
     = Finite (8598323199999999 / 1048576)"
  by (simp only: LAMPORTS_PER_SOL_def js_mul.simps fl_product_8_2)

lemma floor_product_8_2: "\<lfloor>8598323199999999 / 1048576 :: rat\<rfloor> = 8199999999"
  by (rule floor_unique) simp_all

lemma conversion_of_double_8_2:
  "Math_floor (js_mul (Finite (2308094809027379 / 281474976710656)) LAMPORTS_PER_SOL)
     = Finite 8199999999"
  using conversion_truncates_8_2 by (simp only: fl_literal_8_2)

text \<open>
  C6. Both conversions are \<open>Math.floor(amountSol * LAMPORTS_PER_SOL)\<close>, and whenever the
  product is the finite Number \<open>p\<close> that is the integer at or just below \<open>p\<close>, never the
  one above: the conversion cuts. In \<open>sendSol\<close> that integer is the lamport amount of
  the single transfer submitted (when the SDK accepts it); when the product is \<open>NaN\<close>
  or infinite, \<open>SystemProgram.transfer\<close> throws a \<open>RangeError\<close>, the call throws it on
  and nothing is submitted. In \<open>stake\<close> the same integer plus the rent exemption funds
  the stake account. For the amount \<open>1.999999999 + 1e-10\<close> the conversion gives
  1999999999.
\<close>

theorem lamports_conversion_truncates:
  "(\<forall>toPubkey. new_PublicKey k (JStr toAddress) = Inr toPubkey \<longrightarrow>
      (\<forall>p. js_mul amountSol LAMPORTS_PER_SOL = Finite p
            \<and> transfer_rejects k (publicKey (wallet_keypair wl)) toPubkey \<lfloor>p\<rfloor> = None \<longrightarrow>
         sent (snd (sendSol k wl w toAddress amountSol)) =
           sent w @ [([Transfer_instruction (publicKey (wallet_keypair wl)) toPubkey
                         (Finite (of_int \<lfloor>p\<rfloor>))],
                      [wallet_keypair wl])])
      \<and> (\<forall>e. SystemProgram_transfer k (publicKey (wallet_keypair wl)) toPubkey
                 (Math_floor (js_mul amountSol LAMPORTS_PER_SOL)) = Inl e \<longrightarrow>
              sendSol k wl w toAddress amountSol = (Inl e, w))
      \<and> ((\<forall>p. js_mul amountSol LAMPORTS_PER_SOL \<noteq> Finite p) \<longrightarrow>
            (\<exists>e. sendSol k wl w toAddress amountSol = (Inl e, w) \<and> err_name e = ''RangeError'')))
   \<and> (\<forall>resolved voteAccount rentExemption.
        resolveValidator validator = Inr resolved \<and> new_PublicKey k resolved = Inr voteAccount
        \<and> getMinimumBalanceForRentExemption k (w\<lparr>generated := generated w + 1\<rparr>)
              StakeProgram_space = Inr rentExemption
        \<and> createAccount_rejects k (publicKey (wallet_keypair wl)) (publicKey (Keypair_generate k w))
             (Authorized (publicKey (wallet_keypair wl)) (publicKey (wallet_keypair wl)))
             (Lockup 0 0 (publicKey (wallet_keypair wl)))
             (js_add (Math_floor (js_mul amountSol LAMPORTS_PER_SOL)) rentExemption) = None \<longrightarrow>
      sent (snd (stake k wl w validator amountSol)) =
        sent w @
        [([CreateAccount_instruction (publicKey (wallet_keypair wl))
             (publicKey (Keypair_generate k w))
             (Authorized (publicKey (wallet_keypair wl)) (publicKey (wallet_keypair wl)))
             (Lockup 0 0 (publicKey (wallet_keypair wl)))
             (js_add (Math_floor (js_mul amountSol LAMPORTS_PER_SOL)) rentExemption),
           StakeProgram_delegate (publicKey (Keypair_generate k w))
             (publicKey (wallet_keypair wl)) voteAccount],
          [wallet_keypair wl, Keypair_generate k w])])
   \<and> (\<forall>p. js_mul amountSol LAMPORTS_PER_SOL = Finite p \<longrightarrow>
        Math_floor (js_mul amountSol LAMPORTS_PER_SOL) = Finite (of_int \<lfloor>p\<rfloor>)
        \<and> of_int \<lfloor>p\<rfloor> \<le> p \<and> p < of_int \<lfloor>p\<rfloor> + 1)
   \<and> Math_floor (js_mul (js_add (fl (1999999999 / 1000000000)) (fl (1 / 10000000000)))
          LAMPORTS_PER_SOL) = Finite 1999999999"
proof -
  have a: "\<forall>toPubkey. new_PublicKey k (JStr toAddress) = Inr toPubkey \<longrightarrow>
      (\<forall>p. js_mul amountSol LAMPORTS_PER_SOL = Finite p
            \<and> transfer_rejects k (publicKey (wallet_keypair wl)) toPubkey \<lfloor>p\<rfloor> = None \<longrightarrow>
         sent (snd (sendSol k wl w toAddress amountSol)) =
           sent w @ [([Transfer_instruction (publicKey (wallet_keypair wl)) toPubkey
                         (Finite (of_int \<lfloor>p\<rfloor>))],
                      [wallet_keypair wl])])
      \<and> (\<forall>e. SystemProgram_transfer k (publicKey (wallet_keypair wl)) toPubkey
                 (Math_floor (js_mul amountSol LAMPORTS_PER_SOL)) = Inl e \<longrightarrow>
              sendSol k wl w toAddress amountSol = (Inl e, w))
      \<and> ((\<forall>p. js_mul amountSol LAMPORTS_PER_SOL \<noteq> Finite p) \<longrightarrow>
            (\<exists>e. sendSol k wl w toAddress amountSol = (Inl e, w) \<and> err_name e = ''RangeError''))"
  proof (intro allI impI conjI)
    fix toPubkey p
    assume "new_PublicKey k (JStr toAddress) = Inr toPubkey"
      and "js_mul amountSol LAMPORTS_PER_SOL = Finite p
            \<and> transfer_rejects k (publicKey (wallet_keypair wl)) toPubkey \<lfloor>p\<rfloor> = None"
    then show "sent (snd (sendSol k wl w toAddress amountSol)) =
           sent w @ [([Transfer_instruction (publicKey (wallet_keypair wl)) toPubkey
                         (Finite (of_int \<lfloor>p\<rfloor>))],
                      [wallet_keypair wl])]"
      by (intro sendSol_sent) simp_all
  next
    fix toPubkey e
    assume "new_PublicKey k (JStr toAddress) = Inr toPubkey"
      and "SystemProgram_transfer k (publicKey (wallet_keypair wl)) toPubkey
                 (Math_floor (js_mul amountSol LAMPORTS_PER_SOL)) = Inl e"
    then show "sendSol k wl w toAddress amountSol = (Inl e, w)"
      by (rule sendSol_throws)
  next
    fix toPubkey
    assume n: "new_PublicKey k (JStr toAddress) = Inr toPubkey"
      and "\<forall>p. js_mul amountSol LAMPORTS_PER_SOL \<noteq> Finite p"
    from BigInt_of_nonfinite[OF this(2)] obtain e where
      e: "BigInt_of_number (Math_floor (js_mul amountSol LAMPORTS_PER_SOL)) = Inl e"
        "err_name e = ''RangeError''"
      by blast
    then have "SystemProgram_transfer k (publicKey (wallet_keypair wl)) toPubkey
                 (Math_floor (js_mul amountSol LAMPORTS_PER_SOL)) = Inl e"
      by (simp add: SystemProgram_transfer_def)
    from sendSol_throws[OF n this] e(2)
    show "\<exists>e. sendSol k wl w toAddress amountSol = (Inl e, w) \<and> err_name e = ''RangeError''"
      by blast
  qed
  have b: "\<forall>resolved voteAccount rentExemption.
        resolveValidator validator = Inr resolved \<and> new_PublicKey k resolved = Inr voteAccount
        \<and> getMinimumBalanceForRentExemption k (w\<lparr>generated := generated w + 1\<rparr>)
              StakeProgram_space = Inr rentExemption
        \<and> createAccount_rejects k (publicKey (wallet_keypair wl)) (publicKey (Keypair_generate k w))
             (Authorized (publicKey (wallet_keypair wl)) (publicKey (wallet_keypair wl)))
             (Lockup 0 0 (publicKey (wallet_keypair wl)))
             (js_add (Math_floor (js_mul amountSol LAMPORTS_PER_SOL)) rentExemption) = None \<longrightarrow>
      sent (snd (stake k wl w validator amountSol)) =
        sent w @
        [([CreateAccount_instruction (publicKey (wallet_keypair wl))
             (publicKey (Keypair_generate k w))
             (Authorized (publicKey (wallet_keypair wl)) (publicKey (wallet_keypair wl)))
             (Lockup 0 0 (publicKey (wallet_keypair wl)))
             (js_add (Math_floor (js_mul amountSol LAMPORTS_PER_SOL)) rentExemption),
           StakeProgram_delegate (publicKey (Keypair_generate k w))
             (publicKey (wallet_keypair wl)) voteAccount],
          [wallet_keypair wl, Keypair_generate k w])]"
    by (intro allI impI, elim conjE, rule stake_sent)
  have c: "\<forall>p. js_mul amountSol LAMPORTS_PER_SOL = Finite p \<longrightarrow>
        Math_floor (js_mul amountSol LAMPORTS_PER_SOL) = Finite (of_int \<lfloor>p\<rfloor>)
        \<and> of_int \<lfloor>p\<rfloor> \<le> p \<and> p < of_int \<lfloor>p\<rfloor> + 1"
    using Math_floor_truncates by blast
  from a b c conversion_of_spec_example show ?thesis by blast
qed

theorem lamports_conversion_truncates_witness:
  "sent (snd (sendSol example_sdk example_wallet fresh_world ''bob''
                (Finite (2308094809027379 / 281474976710656)))) =
     [([Transfer_instruction (PublicKey ''me'') (PublicKey ''bob'') (Finite 8199999999)],
       [Keypair (PublicKey ''me'')])]
   \<and> sendSol example_sdk example_wallet fresh_world ''bob'' NaN =
       (Inl (JsError ''RangeError''
               ''The number cannot be converted to a BigInt because it is not an integer''),
        fresh_world)
   \<and> sent (snd (stake example_sdk example_wallet fresh_world (JStr ''jito'')
                (Finite (2308094809027379 / 281474976710656)))) =
     [([CreateAccount_instruction (PublicKey ''me'') (PublicKey ''fresh'')
          (Authorized (PublicKey ''me'') (PublicKey ''me'')) (Lockup 0 0 (PublicKey ''me''))
          (Finite 8202282879),
        StakeProgram_delegate (PublicKey ''fresh'') (PublicKey ''me'')
          (PublicKey ''J1to1yufRnoWn81KYg1XkTWzmKjnYSnmE2VY8DGUJ9Qv'')],
       [Keypair (PublicKey ''me''), Keypair (PublicKey ''fresh'')])]
   \<and> (8598323199999999 / 1048576 :: rat) < 8199999999 + 1"
proof -
  let ?a = "Finite (2308094809027379 / 281474976710656)"
  note t = lamports_conversion_truncates[where k = example_sdk and toAddress = "''bob''"
      and wl = example_wallet and amountSol = ?a and w = fresh_world
      and validator = "JStr ''jito''"]
  note tn = lamports_conversion_truncates[where k = example_sdk and toAddress = "''bob''"
      and wl = example_wallet and amountSol = NaN and w = fresh_world
      and validator = "JStr ''jito''"]
  note p = product_of_double_8_2
  note fl8 = floor_product_8_2
  have k1: "new_PublicKey example_sdk (JStr ''bob'') = Inr (PublicKey ''bob'')"
    by (simp add: example_sdk_def)
  have k2: "new_PublicKey example_sdk (JStr ''J1to1yufRnoWn81KYg1XkTWzmKjnYSnmE2VY8DGUJ9Qv'')
              = Inr (PublicKey ''J1to1yufRnoWn81KYg1XkTWzmKjnYSnmE2VY8DGUJ9Qv'')"
    by (simp add: example_sdk_def)
  have k3: "getMinimumBalanceForRentExemption example_sdk
              (fresh_world\<lparr>generated := generated fresh_world + 1\<rparr>) StakeProgram_space
              = Inr (Finite 2282880)"
    by (simp add: example_sdk_def)
  have k4: "\<And>a b n. transfer_rejects example_sdk a b n = None"
    and k5: "\<And>a b c d n. createAccount_rejects example_sdk a b c d n = None"
    by (simp_all add: example_sdk_def)
  have g: "Keypair_generate example_sdk fresh_world = Keypair (PublicKey ''fresh'')"
    by (simp add: example_sdk_def fresh_world_def)
  have e: "sent fresh_world = []" "publicKey (wallet_keypair example_wallet) = PublicKey ''me''"
    "wallet_keypair example_wallet = Keypair (PublicKey ''me'')"
    by (simp_all add: fresh_world_def example_wallet_def)
  note s = conjunct1[OF t, rule_format, OF k1]
  note t1 = conjunct1[OF s, rule_format, OF conjI[OF p k4]]
  note sn = conjunct1[OF tn, rule_format, OF k1]
  have thr: "SystemProgram_transfer example_sdk (publicKey (wallet_keypair example_wallet))
               (PublicKey ''bob'') (Math_floor (js_mul NaN LAMPORTS_PER_SOL)) =
             Inl (JsError ''RangeError''
               ''The number cannot be converted to a BigInt because it is not an integer'')"
    by (simp add: SystemProgram_transfer_def BigInt_of_number_def)
  note t1n = conjunct1[OF conjunct2[OF sn], rule_format, OF thr]
  note t2 = conjunct1[OF conjunct2[OF t], rule_format,
      OF conjI[OF resolveValidator_jito conjI[OF k2 conjI[OF k3 k5]]]]
  note t3 = conjunct1[OF conjunct2[OF conjunct2[OF t]], rule_format, OF p]
  have c1: "sent (snd (sendSol example_sdk example_wallet fresh_world ''bob'' ?a)) =
     [([Transfer_instruction (PublicKey ''me'') (PublicKey ''bob'') (Finite 8199999999)],
       [Keypair (PublicKey ''me'')])]"
    using t1 by (simp add: fl8 e)
  have c2: "sent (snd (stake example_sdk example_wallet fresh_world (JStr ''jito'') ?a)) =
     [([CreateAccount_instruction (PublicKey ''me'') (PublicKey ''fresh'')
          (Authorized (PublicKey ''me'') (PublicKey ''me'')) (Lockup 0 0 (PublicKey ''me''))
          (Finite 8202282879),
        StakeProgram_delegate (PublicKey ''fresh'') (PublicKey ''me'')
          (PublicKey ''J1to1yufRnoWn81KYg1XkTWzmKjnYSnmE2VY8DGUJ9Qv'')],
       [Keypair (PublicKey ''me''), Keypair (PublicKey ''fresh'')])]"
    using t2 by (simp add: conversion_of_double_8_2 fl_numeral_exact g e)
  have c3: "(8598323199999999 / 1048576 :: rat) < 8199999999 + 1"
    using t3 by (simp only: fl8 of_int_numeral)
  from c1 t1n c2 c3 show ?thesis by blast
qed

section \<open>Properties of the staking module\<close>

text \<open>
  C2, as the code has it. In a call \<open>stake(validator, amountSol)\<close> that reaches the
  funding (the validator resolves to an address, the rent query answers
  \<open>rentExemption\<close> and \<open>StakeProgram.createAccount\<close> accepts the amount), the one
  transaction submitted creates the stake account with
  \<open>Math.floor(amountSol * LAMPORTS_PER_SOL) + rentExemption\<close> lamports and nothing else
  added or subtracted. The sum is that of JavaScript Numbers: the Number value for the
  exact sum, which is the exact sum itself whenever that is an integer of magnitude at
  most \<open>2^53\<close>.
\<close>

theorem stake_funded_balance:
  assumes "resolveValidator validator = Inr resolved"
    and "new_PublicKey k resolved = Inr voteAccount"
    and "getMinimumBalanceForRentExemption k (w\<lparr>generated := generated w + 1\<rparr>) StakeProgram_space
           = Inr rentExemption"
    and "createAccount_rejects k (publicKey (wallet_keypair wl)) (publicKey (Keypair_generate k w))
           (Authorized (publicKey (wallet_keypair wl)) (publicKey (wallet_keypair wl)))
           (Lockup 0 0 (publicKey (wallet_keypair wl)))
           (js_add (Math_floor (js_mul amountSol LAMPORTS_PER_SOL)) rentExemption) = None"
  shows "sent (snd (stake k wl w validator amountSol)) =
           sent w @
           [([CreateAccount_instruction (publicKey (wallet_keypair wl))
                (publicKey (Keypair_generate k w))
                (Authorized (publicKey (wallet_keypair wl)) (publicKey (wallet_keypair wl)))
                (Lockup 0 0 (publicKey (wallet_keypair wl)))
                (js_add (Math_floor (js_mul amountSol LAMPORTS_PER_SOL)) rentExemption),
              StakeProgram_delegate (publicKey (Keypair_generate k w))
                (publicKey (wallet_keypair wl)) voteAccount],
             [wallet_keypair wl, Keypair_generate k w])]
       \<and> (\<forall>p r. js_mul amountSol LAMPORTS_PER_SOL = Finite p \<and> rentExemption = Finite r \<longrightarrow>
              js_add (Math_floor (js_mul amountSol LAMPORTS_PER_SOL)) rentExemption
                = fl (of_int \<lfloor>p\<rfloor> + r))
       \<and> (\<forall>p r. js_mul amountSol LAMPORTS_PER_SOL = Finite p \<and> rentExemption = Finite (of_int r)
                 \<and> \<bar>\<lfloor>p\<rfloor> + r\<bar> \<le> 2 ^ 53 \<longrightarrow>
              js_add (Math_floor (js_mul amountSol LAMPORTS_PER_SOL)) rentExemption
                = Finite (of_int (\<lfloor>p\<rfloor> + r)))"
proof (intro conjI allI impI)
  show "sent (snd (stake k wl w validator amountSol)) =
           sent w @
           [([CreateAccount_instruction (publicKey (wallet_keypair wl))
                (publicKey (Keypair_generate k w))
                (Authorized (publicKey (wallet_keypair wl)) (publicKey (wallet_keypair wl)))
                (Lockup 0 0 (publicKey (wallet_keypair wl)))
                (js_add (Math_floor (js_mul amountSol LAMPORTS_PER_SOL)) rentExemption),
              StakeProgram_delegate (publicKey (Keypair_generate k w))
                (publicKey (wallet_keypair wl)) voteAccount],
             [wallet_keypair wl, Keypair_generate k w])]"
    by (rule stake_sent[OF assms])
next
  fix p r
  assume "js_mul amountSol LAMPORTS_PER_SOL = Finite p \<and> rentExemption = Finite r"
  then show "js_add (Math_floor (js_mul amountSol LAMPORTS_PER_SOL)) rentExemption
                = fl (of_int \<lfloor>p\<rfloor> + r)"
    by simp
next
  fix p r
  assume a: "js_mul amountSol LAMPORTS_PER_SOL = Finite p \<and> rentExemption = Finite (of_int r)
                 \<and> \<bar>\<lfloor>p\<rfloor> + r\<bar> \<le> 2 ^ 53"
  then have "js_add (Math_floor (js_mul amountSol LAMPORTS_PER_SOL)) rentExemption
               = fl (of_int (\<lfloor>p\<rfloor> + r))"
    by simp
  also have "\<dots> = Finite (of_int (\<lfloor>p\<rfloor> + r))"
    using a by (intro fl_of_int_exact) simp
  finally show "js_add (Math_floor (js_mul amountSol LAMPORTS_PER_SOL)) rentExemption
                = Finite (of_int (\<lfloor>p\<rfloor> + r))" .
qed

theorem stake_funded_balance_witness:
  "sent (snd (stake example_sdk example_wallet fresh_world (JStr ''jito'') (Finite 1))) =
     [([CreateAccount_instruction (PublicKey ''me'') (PublicKey ''fresh'')
          (Authorized (PublicKey ''me'') (PublicKey ''me'')) (Lockup 0 0 (PublicKey ''me''))
          (Finite 1002282880),
        StakeProgram_delegate (PublicKey ''fresh'') (PublicKey ''me'')
          (PublicKey ''J1to1yufRnoWn81KYg1XkTWzmKjnYSnmE2VY8DGUJ9Qv'')],
       [Keypair (PublicKey ''me''), Keypair (PublicKey ''fresh'')])]"
proof -
  have k2: "new_PublicKey example_sdk (JStr ''J1to1yufRnoWn81KYg1XkTWzmKjnYSnmE2VY8DGUJ9Qv'')
              = Inr (PublicKey ''J1to1yufRnoWn81KYg1XkTWzmKjnYSnmE2VY8DGUJ9Qv'')"
    by (simp add: example_sdk_def)
  have k3: "getMinimumBalanceForRentExemption example_sdk
              (fresh_world\<lparr>generated := generated fresh_world + 1\<rparr>) StakeProgram_space
              = Inr (Finite 2282880)"
    by (simp add: example_sdk_def)
  have k5: "\<And>a b c d n. createAccount_rejects example_sdk a b c d n = None"
    by (simp add: example_sdk_def)
  have g: "Keypair_generate example_sdk fresh_world = Keypair (PublicKey ''fresh'')"
    by (simp add: example_sdk_def fresh_world_def)
  have e: "sent fresh_world = []" "publicKey (wallet_keypair example_wallet) = PublicKey ''me''"
    "wallet_keypair example_wallet = Keypair (PublicKey ''me'')"
    by (simp_all add: fresh_world_def example_wallet_def)
  have p: "js_mul (Finite 1) LAMPORTS_PER_SOL = Finite 1000000000"
    by (simp add: LAMPORTS_PER_SOL_def fl_numeral_exact)
  have r: "Finite 2282880 = Finite (of_int 2282880)" by simp
  have b: "\<bar>\<lfloor>1000000000 :: rat\<rfloor> + 2282880\<bar> \<le> 2 ^ 53" by simp
  note t = stake_funded_balance[OF resolveValidator_jito k2 k3 k5, of example_wallet "Finite 1"]
  note t1 = conjunct1[OF t]
  note t2 = conjunct2[OF conjunct2[OF t], rule_format, OF conjI[OF p conjI[OF r b]]]
  show ?thesis
    using t1 by (simp only: t2) (simp add: g e)
qed

lemma fl_literal_stake_example:
  "fl (9007199253447473 / 1000000000) = Finite (151115727430127 / 16777216)"
  by (rule fl_unfold[where e = 23 and u = "1 / 2 ^ 29" and n = 4835703277764064, simplified])
     (simp_all add: round_half_even_nearest)

lemma fl_product_stake_example:
  "fl (151115727430127 / 16777216 * 1000000000) = Finite 9007199253447473"
  by (rule fl_unfold[where e = 52 and u = 1 and n = 9007199253447473, simplified])
     (simp_all add: round_half_even_nearest)

lemma fl_sum_stake_example: "fl (9007199253447473 + 2282880) = Finite 9007199255730352"
  by (rule fl_unfold[where e = 53 and u = 2 and n = 4503599627865176, simplified])
     (simp_all add: round_half_even_tie_down)

text \<open>
  C2 as stated fails on a large stake: for \<open>amountSol = 9007199.253447473\<close> the
  converted amount is 9007199253447473 lamports and the rent exemption 2282880, whose
  sum is 9007199255730353, and the stake account is funded with 9007199255730352.
\<close>

theorem stake_funded_balance_counterexample:
  "fl (9007199253447473 / 1000000000) = Finite (151115727430127 / 16777216)
   \<and> Math_floor (js_mul (Finite (151115727430127 / 16777216)) LAMPORTS_PER_SOL)
       = Finite 9007199253447473
   \<and> getMinimumBalanceForRentExemption example_sdk
       (fresh_world\<lparr>generated := generated fresh_world + 1\<rparr>) StakeProgram_space
       = Inr (Finite 2282880)
   \<and> (9007199253447473 :: int) + 2282880 = 9007199255730353
   \<and> sent (snd (stake example_sdk example_wallet fresh_world (JStr ''jito'')
                  (Finite (151115727430127 / 16777216)))) =
       [([CreateAccount_instruction (PublicKey ''me'') (PublicKey ''fresh'')
            (Authorized (PublicKey ''me'') (PublicKey ''me'')) (Lockup 0 0 (PublicKey ''me''))
            (Finite 9007199255730352),
          StakeProgram_delegate (PublicKey ''fresh'') (PublicKey ''me'')
            (PublicKey ''J1to1yufRnoWn81KYg1XkTWzmKjnYSnmE2VY8DGUJ9Qv'')],
         [Keypair (PublicKey ''me''), Keypair (PublicKey ''fresh'')])]"
proof -
  let ?a = "Finite (151115727430127 / 16777216)"
  have m: "Math_floor (js_mul ?a LAMPORTS_PER_SOL) = Finite 9007199253447473"
    by (simp only: LAMPORTS_PER_SOL_def js_mul.simps fl_product_stake_example Math_floor.simps
        floor_numeral of_int_numeral)
  have k2: "new_PublicKey example_sdk (JStr ''J1to1yufRnoWn81KYg1XkTWzmKjnYSnmE2VY8DGUJ9Qv'')
              = Inr (PublicKey ''J1to1yufRnoWn81KYg1XkTWzmKjnYSnmE2VY8DGUJ9Qv'')"
    by (simp add: example_sdk_def)
  have k3: "getMinimumBalanceForRentExemption example_sdk
              (fresh_world\<lparr>generated := generated fresh_world + 1\<rparr>) StakeProgram_space
              = Inr (Finite 2282880)"
    by (simp add: example_sdk_def)
  have k5: "\<And>a b c d n. createAccount_rejects example_sdk a b c d n = None"
    by (simp add: example_sdk_def)
  have g: "Keypair_generate example_sdk fresh_world = Keypair (PublicKey ''fresh'')"
    by (simp add: example_sdk_def fresh_world_def)
  have e: "sent fresh_world = []" "publicKey (wallet_keypair example_wallet) = PublicKey ''me''"
    "wallet_keypair example_wallet = Keypair (PublicKey ''me'')"
    by (simp_all add: fresh_world_def example_wallet_def)
  have s: "js_add (Finite 9007199253447473) (Finite 2282880) = Finite 9007199255730352"
    by (simp only: js_add.simps fl_sum_stake_example)
  have "sent (snd (stake example_sdk example_wallet fresh_world (JStr ''jito'') ?a)) =
       [([CreateAccount_instruction (PublicKey ''me'') (PublicKey ''fresh'')
            (Authorized (PublicKey ''me'') (PublicKey ''me'')) (Lockup 0 0 (PublicKey ''me''))
            (Finite 9007199255730352),
          StakeProgram_delegate (PublicKey ''fresh'') (PublicKey ''me'')
            (PublicKey ''J1to1yufRnoWn81KYg1XkTWzmKjnYSnmE2VY8DGUJ9Qv'')],
         [Keypair (PublicKey ''me''), Keypair (PublicKey ''fresh'')])]"
    using stake_sent[OF resolveValidator_jito k2 k3 k5, of example_wallet ?a]
    by (simp only: m s g e append_Nil keypair.sel)
  with fl_literal_stake_example m k3 show ?thesis by simp
qed

text \<open>
  C5. In a call \<open>withdraw(stakeAccountAddress)\<close> whose balance query answers
  \<open>stakeBalance\<close>, the one transaction submitted, in the world the balance was read in,
  is a single withdraw instruction for exactly \<open>stakeBalance\<close> lamports to the wallet,
  and a result, when there is one, reports \<open>stakeBalance / LAMPORTS_PER_SOL\<close> as
  withdrawn.
\<close>

theorem withdraw_uses_balance_read:
  assumes "new_PublicKey k (JStr stakeAccountAddress) = Inr stakeAccount"
    and "getBalance k w stakeAccount = Inr stakeBalance"
  shows "snd (withdraw k wl w stakeAccountAddress) =
           w\<lparr>sent := sent w @
             [([StakeProgram_withdraw stakeAccount (publicKey (wallet_keypair wl))
                  (publicKey (wallet_keypair wl)) stakeBalance],
               [wallet_keypair wl])]\<rparr>
       \<and> (\<forall>res. fst (withdraw k wl w stakeAccountAddress) = Inr res \<longrightarrow>
              wd_withdrawn res = js_div stakeBalance LAMPORTS_PER_SOL
              \<and> wd_stakeAccount res = stakeAccountAddress)"
  using assms
  by (auto simp: withdraw_def sendAndConfirmTransaction_def Let_def split: sum.splits)

lemma fl_balance_example:
  "fl (3282880 / 1000000000) = Finite (1892451474521863 / 576460752303423488)"
  by (rule fl_unfold[where e = "-9" and u = "1 / 2 ^ 61" and n = 7569805898087452, simplified])
     (simp_all add: round_half_even_nearest)

lemma js_div_balance_example:
  "js_div (Finite 3282880) LAMPORTS_PER_SOL = Finite (1892451474521863 / 576460752303423488)"
  by (simp only: LAMPORTS_PER_SOL_def js_div.simps fl_balance_example) simp

theorem withdraw_uses_balance_read_witness:
  "withdraw example_sdk example_wallet fresh_world ''stake1'' =
     (Inr \<lparr>wd_signature = ''sig'', wd_stakeAccount = ''stake1'',
           wd_withdrawn = Finite (1892451474521863 / 576460752303423488),
           wd_explorerUrl = ''https://solscan.io/tx/sig''\<rparr>,
      fresh_world\<lparr>sent :=
        [([StakeProgram_withdraw (PublicKey ''stake1'') (PublicKey ''me'') (PublicKey ''me'')
             (Finite 3282880)],
          [Keypair (PublicKey ''me'')])]\<rparr>)"
proof -
  have k1: "new_PublicKey example_sdk (JStr ''stake1'') = Inr (PublicKey ''stake1'')"
    by (simp add: example_sdk_def)
  have k2: "getBalance example_sdk fresh_world (PublicKey ''stake1'') = Inr (Finite 3282880)"
    by (simp add: example_sdk_def)
  have e: "sent fresh_world = []" "publicKey (wallet_keypair example_wallet) = PublicKey ''me''"
    "wallet_keypair example_wallet = Keypair (PublicKey ''me'')"
    by (simp_all add: fresh_world_def example_wallet_def)
  note d = js_div_balance_example
  have f: "fst (withdraw example_sdk example_wallet fresh_world ''stake1'') =
     Inr \<lparr>wd_signature = ''sig'', wd_stakeAccount = ''stake1'',
           wd_withdrawn = js_div (Finite 3282880) LAMPORTS_PER_SOL,
           wd_explorerUrl = ''https://solscan.io/tx/sig''\<rparr>"
    by (simp add: withdraw_def sendAndConfirmTransaction_def example_sdk_def address_def Let_def)
  note t = withdraw_uses_balance_read[OF k1 k2, of example_wallet]
  have "snd (withdraw example_sdk example_wallet fresh_world ''stake1'') =
      fresh_world\<lparr>sent :=
        [([StakeProgram_withdraw (PublicKey ''stake1'') (PublicKey ''me'') (PublicKey ''me'')
             (Finite 3282880)],
          [Keypair (PublicKey ''me'')])]\<rparr>"
    using conjunct1[OF t] by (simp add: e)
  moreover have "wd_withdrawn (\<lparr>wd_signature = ''sig'', wd_stakeAccount = ''stake1'',
           wd_withdrawn = js_div (Finite 3282880) LAMPORTS_PER_SOL,
           wd_explorerUrl = ''https://solscan.io/tx/sig''\<rparr>) = js_div (Finite 3282880) LAMPORTS_PER_SOL"
    using conjunct2[OF t, rule_format, OF f] by simp
  ultimately show ?thesis
    using f d by (simp add: prod_eq_iff)
qed

section \<open>Properties of the stake account scan\<close>

lemma map_throwing_nth:
  "map_throwing f xs = Inr ys \<Longrightarrow>
     length ys = length xs \<and> (\<forall>i < length xs. f (xs ! i) = Inr (ys ! i))"
proof (induction xs arbitrary: ys)
  case Nil
  then show ?case by simp
next
  case (Cons x xs)
  from Cons.prems obtain y ys' where
    y: "f x = Inr y" and r: "map_throwing f xs = Inr ys'" and ys: "ys = y # ys'"
    by (auto split: sum.splits)
  from Cons.IH[OF r] have l: "length ys' = length xs"
    and n: "\<forall>i < length xs. f (xs ! i) = Inr (ys' ! i)" by simp_all
  show ?case
  proof (intro conjI allI impI)
    show "length ys = length (x # xs)" using l ys by simp
  next
    fix i
    assume "i < length (x # xs)"
    then show "f ((x # xs) ! i) = Inr (ys ! i)"
      using y n ys by (cases i) simp_all
  qed
qed

lemma js_or_null: "js_or v JNull = JNull \<longleftrightarrow> \<not> truthy v"
  by (cases v) (auto simp: js_or_def)

lemma falsy_has_no_properties:
  "\<not> truthy v \<Longrightarrow> optional_get v ''activationEpoch'' = JUndefined"
  by (cases v) (auto simp: optional_get_def object_get_def Object_prototype_def)

text \<open>
  C4, as the code has it. \<open>getStakeAccounts()\<close> returns one summary for each account of
  the scan, in the same order. The summary at each position has the address and the
  lamports of the account at that position, and with \<open>delegation\<close> the value of
  \<open>data.stake?.delegation\<close> in that account's parsed data: its state is \<open>delegated\<close> if
  and only if \<open>delegation\<close> is truthy, and \<open>inactive\<close> otherwise; for a \<open>delegation\<close>
  that is an object, \<open>null\<close> or absent that is: if and only if it is not \<open>null\<close> or
  absent. Its \<open>activationEpoch\<close> is \<open>null\<close> if and only if \<open>delegation?.activationEpoch\<close>
  is falsy: it is \<open>null\<close> on every inactive account, and on a delegated account it is
  the delegation's \<open>activationEpoch\<close> when that is truthy and \<open>null\<close> when that is
  missing or falsy.
\<close>

theorem getStakeAccounts_classification:
  assumes "getStakeAccounts k wl w = Inr summaries"
  shows "\<exists>accounts.
           getParsedProgramAccounts k w StakeProgram_programId
              (12, toBase58 (publicKey (wallet_keypair wl))) = Inr accounts
         \<and> length summaries = length accounts
         \<and> (\<forall>i < length accounts.
              \<exists>info stake_field.
                parsed_info (data (snd (accounts ! i))) = Inr info
              \<and> get_prop info ''stake'' = Inr stake_field
              \<and> (let delegation = optional_get stake_field ''delegation'';
                      epoch = optional_get delegation ''activationEpoch'';
                      s = summaries ! i
                  in sa_address s = toBase58 (fst (accounts ! i))
                   \<and> sa_lamports s = lamports (snd (accounts ! i))
                   \<and> (sa_state s = ''delegated'' \<longleftrightarrow> truthy delegation)
                   \<and> (sa_state s = ''inactive'' \<longleftrightarrow> \<not> truthy delegation)
                   \<and> ((\<exists>props. delegation = JObj props) \<or> nullish delegation
                         \<longrightarrow> (sa_state s = ''delegated'' \<longleftrightarrow> \<not> nullish delegation))
                   \<and> (sa_activationEpoch s = JNull \<longleftrightarrow> \<not> truthy epoch)
                   \<and> (sa_state s = ''inactive'' \<longrightarrow> sa_activationEpoch s = JNull)
                   \<and> (truthy epoch \<longrightarrow>
                         sa_state s = ''delegated'' \<and> sa_activationEpoch s = epoch)))"
proof -
  from assms obtain accounts where
    scan: "getParsedProgramAccounts k w StakeProgram_programId
              (12, toBase58 (publicKey (wallet_keypair wl))) = Inr accounts"
    and m: "map_throwing summarize accounts = Inr summaries"
    by (auto simp: getStakeAccounts_def split: sum.splits)
  from map_throwing_nth[OF m] have len: "length summaries = length accounts"
    and nth: "\<forall>i < length accounts. summarize (accounts ! i) = Inr (summaries ! i)"
    by simp_all
  have each: "\<exists>info stake_field.
                parsed_info (data (snd (accounts ! i))) = Inr info
              \<and> get_prop info ''stake'' = Inr stake_field
              \<and> (let delegation = optional_get stake_field ''delegation'';
                      epoch = optional_get delegation ''activationEpoch'';
                      s = summaries ! i
                  in sa_address s = toBase58 (fst (accounts ! i))
                   \<and> sa_lamports s = lamports (snd (accounts ! i))
                   \<and> (sa_state s = ''delegated'' \<longleftrightarrow> truthy delegation)
                   \<and> (sa_state s = ''inactive'' \<longleftrightarrow> \<not> truthy delegation)
                   \<and> ((\<exists>props. delegation = JObj props) \<or> nullish delegation
                         \<longrightarrow> (sa_state s = ''delegated'' \<longleftrightarrow> \<not> nullish delegation))
                   \<and> (sa_activationEpoch s = JNull \<longleftrightarrow> \<not> truthy epoch)
                   \<and> (sa_state s = ''inactive'' \<longrightarrow> sa_activationEpoch s = JNull)
                   \<and> (truthy epoch \<longrightarrow>
                         sa_state s = ''delegated'' \<and> sa_activationEpoch s = epoch))"
    if i: "i < length accounts" for i
  proof -
    obtain pubkey account where pa: "accounts ! i = (pubkey, account)"
      by (cases "accounts ! i")
    have sm: "summarize (pubkey, account) = Inr (summaries ! i)"
      using nth[rule_format, OF i] by (simp only: pa)
    from sm obtain info stake_field where
      inf: "parsed_info (data account) = Inr info"
      and f: "get_prop info ''stake'' = Inr stake_field"
      and s: "summaries ! i =
                \<lparr>sa_address = toBase58 pubkey, sa_lamports = lamports account,
                 sa_sol = js_div (lamports account) LAMPORTS_PER_SOL,
                 sa_state = (if truthy (optional_get stake_field ''delegation'')
                             then ''delegated'' else ''inactive''),
                 sa_validator = js_or (optional_get (optional_get stake_field ''delegation'') ''voter'') JNull,
                 sa_activationEpoch =
                   js_or (optional_get (optional_get stake_field ''delegation'') ''activationEpoch'') JNull\<rparr>"
      by (auto simp: summarize_def Let_def split: sum.splits)
    let ?s = "summaries ! i"
    let ?d = "optional_get stake_field ''delegation''"
    let ?e = "optional_get ?d ''activationEpoch''"
    have ad: "sa_address ?s = toBase58 (fst (accounts ! i))"
      and la: "sa_lamports ?s = lamports (snd (accounts ! i))"
      by (simp_all add: s pa)
    have a: "sa_state ?s = ''delegated'' \<longleftrightarrow> truthy ?d" by (simp add: s)
    have b: "sa_state ?s = ''inactive'' \<longleftrightarrow> \<not> truthy ?d" by (simp add: s)
    have c: "(\<exists>props. ?d = JObj props) \<or> nullish ?d
               \<longrightarrow> (sa_state ?s = ''delegated'' \<longleftrightarrow> \<not> nullish ?d)"
      by (cases ?d) (auto simp: s)
    have d: "sa_activationEpoch ?s = JNull \<longleftrightarrow> \<not> truthy ?e" by (simp add: s js_or_null)
    have e: "sa_state ?s = ''inactive'' \<longrightarrow> sa_activationEpoch ?s = JNull"
      using falsy_has_no_properties[of ?d] by (auto simp: s js_or_def)
    have g: "truthy ?e \<longrightarrow> sa_state ?s = ''delegated'' \<and> sa_activationEpoch ?s = ?e"
      using falsy_has_no_properties[of ?d] by (auto simp: s js_or_def)
    have i': "parsed_info (data (snd (accounts ! i))) = Inr info" using inf pa by simp
    from i' f ad la a b c d e g show ?thesis
      unfolding Let_def by blast
  qed
  from scan len each show ?thesis by blast
qed

theorem getStakeAccounts_classification_witness:
  "getStakeAccounts
     (scan_sdk
        [(PublicKey ''s1'', parsed_stake_account
            (JObj [(''stake'', JObj [(''delegation'',
               JObj [(''voter'', JStr ''V''), (''activationEpoch'', JStr ''512'')])])])),
         (PublicKey ''s2'', parsed_stake_account (JObj [(''meta'', JObj [])]))])
     example_wallet fresh_world =
   Inr [\<lparr>sa_address = ''s1'', sa_lamports = Finite 3282880,
          sa_sol = Finite (1892451474521863 / 576460752303423488),
          sa_state = ''delegated'', sa_validator = JStr ''V'', sa_activationEpoch = JStr ''512''\<rparr>,
        \<lparr>sa_address = ''s2'', sa_lamports = Finite 3282880,
          sa_sol = Finite (1892451474521863 / 576460752303423488),
          sa_state = ''inactive'', sa_validator = JNull, sa_activationEpoch = JNull\<rparr>]"
  (is "getStakeAccounts (scan_sdk ?accounts) _ _ = Inr [?s1, ?s2]")
proof -
  let ?k = "scan_sdk ?accounts"
  have r: "getStakeAccounts ?k example_wallet fresh_world = Inr [?s1, ?s2]"
    by (simp add: getStakeAccounts_def scan_sdk_def summarize_def parsed_info_def
        parsed_stake_account_def get_prop_def optional_get_def object_get_def js_or_def
        Object_prototype_def js_div_balance_example)
  from getStakeAccounts_classification[OF r] obtain accounts where
    sc: "getParsedProgramAccounts ?k fresh_world StakeProgram_programId
           (12, toBase58 (publicKey (wallet_keypair example_wallet))) = Inr accounts"
    and len: "length [?s1, ?s2] = length accounts"
    by blast
  from sc have "accounts = ?accounts" by (simp add: scan_sdk_def)
  with len r show ?thesis by simp
qed

text \<open>
  C4 as stated fails when a delegation carries no \<open>activationEpoch\<close>: the account is
  classified \<open>delegated\<close> and its \<open>activationEpoch\<close> is \<open>null\<close>.
\<close>

theorem getStakeAccounts_epoch_counterexample:
  "getStakeAccounts
     (scan_sdk
        [(PublicKey ''s3'', parsed_stake_account
            (JObj [(''stake'', JObj [(''delegation'', JObj [(''voter'', JStr ''V'')])])]))])
     example_wallet fresh_world =
   Inr [\<lparr>sa_address = ''s3'', sa_lamports = Finite 3282880,
          sa_sol = Finite (1892451474521863 / 576460752303423488),
          sa_state = ''delegated'', sa_validator = JStr ''V'', sa_activationEpoch = JNull\<rparr>]"
  by (simp add: getStakeAccounts_def scan_sdk_def summarize_def parsed_info_def
      parsed_stake_account_def get_prop_def optional_get_def object_get_def js_or_def
      Object_prototype_def js_div_balance_example)

section \<open>Properties of the wallet module\<close>

text \<open>
  C10, as the code has it. In a call \<open>getTokenBalance(mintAddress)\<close> that reaches the
  lookup of the token account \<open>ata\<close>: when the lookup fails with an error named
  \<open>TokenAccountNotFoundError\<close> the call returns 0; when it fails with any other error the
  call throws that same error; when the account exists the call returns
  \<open>Number(account.amount)\<close>, which is the raw amount itself whenever the amount is at
  most \<open>2^53\<close>.
\<close>

theorem getTokenBalance_cases:
  assumes "new_PublicKey k (JStr mintAddress) = Inr mint"
    and "getAssociatedTokenAddress k mint (publicKey (wallet_keypair wl)) = Inr ata"
  shows "(\<forall>e. getAccount k w ata = Inl e \<and> err_name e = ''TokenAccountNotFoundError''
              \<longrightarrow> getTokenBalance k wl w mintAddress = Inr (Finite 0))
       \<and> (\<forall>e. getAccount k w ata = Inl e \<and> err_name e \<noteq> ''TokenAccountNotFoundError''
              \<longrightarrow> getTokenBalance k wl w mintAddress = Inl e)
       \<and> (\<forall>account. getAccount k w ata = Inr account
              \<longrightarrow> getTokenBalance k wl w mintAddress = Inr (Number_of_bigint (amount account))
                \<and> (\<bar>amount account\<bar> \<le> 2 ^ 53
                     \<longrightarrow> getTokenBalance k wl w mintAddress = Inr (Finite (of_int (amount account)))))"
  using assms
  by (simp add: getTokenBalance_def getTokenBalance_try_def Number_of_bigint_exact)

theorem getTokenBalance_cases_witness:
  "getTokenBalance example_sdk (wallet_of ''absent'') fresh_world ''mint'' = Inr (Finite 0)
   \<and> getTokenBalance example_sdk (wallet_of ''broken'') fresh_world ''mint''
       = Inl (JsError ''TokenInvalidAccountOwnerError'' [])
   \<and> getTokenBalance example_sdk (wallet_of ''me'') fresh_world ''mint'' = Inr (Finite 1500)"
proof -
  have k1: "new_PublicKey example_sdk (JStr ''mint'') = Inr (PublicKey ''mint'')"
    by (simp add: example_sdk_def)
  have k2: "\<And>a. getAssociatedTokenAddress example_sdk (PublicKey ''mint'')
               (publicKey (wallet_keypair (wallet_of a))) = Inr (PublicKey a)"
    by (simp add: example_sdk_def ata_of_def wallet_of_def)
  have g1: "getAccount example_sdk fresh_world (PublicKey ''absent'') = Inl (JsError ''TokenAccountNotFoundError'' [])"
    and g2: "getAccount example_sdk fresh_world (PublicKey ''broken'') = Inl (JsError ''TokenInvalidAccountOwnerError'' [])"
    and g3: "getAccount example_sdk fresh_world (PublicKey ''me'') = Inr \<lparr>amount = 1500\<rparr>"
    by (simp_all add: example_sdk_def)
  have s: "\<bar>1500::int\<bar> \<le> 2 ^ 53" by simp
  show ?thesis
    using getTokenBalance_cases[OF k1 k2[of "''absent''"], where w = fresh_world]
      getTokenBalance_cases[OF k1 k2[of "''broken''"], where w = fresh_world]
      getTokenBalance_cases[OF k1 k2[of "''me''"], where w = fresh_world] g1 g2 g3 s
    by (simp add: Number_of_bigint_exact)
qed

text \<open>
  C10 as stated fails on a large balance: the token account of \<open>''whale''\<close> holds
  9007199254740993 base units and the call returns 9007199254740992.
\<close>

theorem getTokenBalance_raw_amount_counterexample:
  "getAccount example_sdk fresh_world (PublicKey ''whale'') = Inr \<lparr>amount = 9007199254740993\<rparr>
   \<and> getTokenBalance example_sdk (wallet_of ''whale'') fresh_world ''mint''
       = Inr (Finite 9007199254740992)
   \<and> getTokenBalance example_sdk (wallet_of ''whale'') fresh_world ''mint''
       \<noteq> Inr (Finite 9007199254740993)"
  by (simp add: getTokenBalance_def getTokenBalance_try_def example_sdk_def ata_of_def
      wallet_of_def Number_of_bigint_def fl_above_safe)

section \<open>Properties of the alias resolvers\<close>

lemma upper_char_not_lower: "upper_char c \<notin> set lower_letters"
  by (simp add: upper_char_def lower_letters_def upper_letters_def)

lemma toUpperCase_neq:
  assumes "\<exists>c \<in> set key. c \<in> set lower_letters"
  shows "toUpperCase s \<noteq> key"
proof
  assume "toUpperCase s = key"
  then have "set key = upper_char ` set s" by (auto simp: toUpperCase_def)
  with assms upper_char_not_lower show False by auto
qed

text \<open>No upper-cased key is a property of \<open>Object.prototype\<close>: each of those has a lower-case letter.\<close>

lemma prototype_miss_upper: "map_of Object_prototype (toUpperCase s) = None"
  by (simp add: Object_prototype_def toUpperCase_neq lower_letters_def)

lemma resolveMint_found:
  "map_of TOKENS (toUpperCase s) = Some v \<Longrightarrow> truthy v \<Longrightarrow> resolveMint (JStr s) = Inr v"
  by (simp add: resolveMint_def object_get_def)

lemma resolveMint_not_found:
  "map_of TOKENS (toUpperCase s) = None \<Longrightarrow> resolveMint (JStr s) = Inr (JStr s)"
  by (simp add: resolveMint_def object_get_def prototype_miss_upper)

lemma TOKENS_values:
  assumes "map_of TOKENS key = Some v"
  shows "v \<in> {JStr ''So11111111111111111111111111111111111111112'',
              JStr ''EPjFWdd5AufqSSqeM2qN1xzybapC8G4wEGGkZwyTDt1v'',
              JStr ''Es9vMFrzaCERmJfrF4H2FYD4KCoNkY11McCe8BenwNYB'',
              JStr ''DezXAZ8z7PnrnRJjz3wXBoRgixCa6xjnB7YaB1pPB263'',
              JStr ''JUPyiwrYJFskUPiHa7hkeR8VUtAeFoSYbKedZNsDvCN'',
              JStr ''EKpQGSJtjMFqKZ9KQanSqYXRcF8fBopzLHYxdM65zcjm'',
              JStr ''HZ1JovNiVvGrGNiiYvEozEVgZ58xaU3RKwX8eACQBCt3''}"
  using assms by (auto simp: TOKENS_def split: if_splits)

lemma TOKENS_long_miss:
  assumes "4 < length s"
  shows "map_of TOKENS (toUpperCase s) = None"
proof -
  have "\<And>key. length key \<le> 4 \<Longrightarrow> toUpperCase s \<noteq> key"
    using assms by (auto simp: toUpperCase_def)
  then show ?thesis by (simp add: TOKENS_def)
qed

text \<open>
  \<open>resolveMint\<close> does what the alias contract says, on every string: a string whose
  upper-cased form is a key of the table resolves to the address of that key, any other
  string to itself, and resolving a result again changes nothing.
\<close>

lemma resolveMint_string:
  "resolveMint (JStr s) = (case map_of TOKENS (toUpperCase s) of Some v \<Rightarrow> Inr v | None \<Rightarrow> Inr (JStr s))"
proof (cases "map_of TOKENS (toUpperCase s)")
  case None
  then show ?thesis by (simp add: resolveMint_not_found)
next
  case (Some v)
  then have "truthy v" using TOKENS_values[OF Some] by auto
  with Some show ?thesis by (simp add: resolveMint_found)
qed

lemma resolveMint_returns_string: "\<exists>a. resolveMint (JStr s) = Inr (JStr a)"
proof (cases "map_of TOKENS (toUpperCase s)")
  case None
  then show ?thesis by (simp add: resolveMint_string)
next
  case (Some v)
  then show ?thesis using TOKENS_values[OF Some] by (auto simp: resolveMint_string)
qed

lemma resolveMint_idempotent:
  assumes "resolveMint (JStr s) = Inr v"
  shows "resolveMint v = Inr v"
proof (cases "map_of TOKENS (toUpperCase s)")
  case None
  with assms have "v = JStr s" by (simp add: resolveMint_string)
  with None show ?thesis by (simp add: resolveMint_string)
next
  case (Some t)
  with assms have "v = t" by (simp add: resolveMint_string)
  then obtain a where a: "v = JStr a" "4 < length a"
    using TOKENS_values[OF Some] by auto
  then show ?thesis by (simp add: resolveMint_string TOKENS_long_miss)
qed

lemma resolveMint_case_insensitive:
  "toUpperCase s = toUpperCase t \<Longrightarrow> map_of TOKENS (toUpperCase s) \<noteq> None
     \<Longrightarrow> resolveMint (JStr s) = resolveMint (JStr t)"
  by (auto simp: resolveMint_string split: option.splits)

lemma lower_char_not_upper: "lower_char c \<notin> set upper_letters"
  by (simp add: lower_char_def lower_letters_def upper_letters_def)

lemma toLowerCase_neq:
  assumes "\<exists>c \<in> set key. c \<in> set upper_letters"
  shows "toLowerCase s \<noteq> key"
proof
  assume "toLowerCase s = key"
  then have "set key = lower_char ` set s" by (auto simp: toLowerCase_def)
  with assms lower_char_not_upper show False by auto
qed

text \<open>
  \<open>resolveValidator\<close> does the same on every string whose lower-cased form is neither
  \<open>constructor\<close> nor \<open>__proto__\<close>, the two all-lower-case properties that the table
  object inherits.
\<close>

lemma resolveValidator_string:
  assumes "toLowerCase s \<noteq> ''constructor''" and "toLowerCase s \<noteq> ''__proto__''"
  shows "resolveValidator (JStr s) =
           (case map_of VALIDATORS (toLowerCase s) of Some v \<Rightarrow> Inr v | None \<Rightarrow> Inr (JStr s))"
proof -
  have p: "map_of Object_prototype (toLowerCase s) = None"
    using assms by (simp add: Object_prototype_def toLowerCase_neq upper_letters_def)
  show ?thesis
    by (auto simp: resolveValidator_def object_get_def p VALIDATORS_def)
qed

section \<open>The inherited properties of the validator table\<close>

text \<open>
  C3 fails on the code for \<open>resolveValidator\<close>. The table is a plain object, so
  \<open>VALIDATORS['constructor']\<close> is the inherited function \<open>Object\<close>, which is truthy:
  the call \<open>resolveValidator('constructor')\<close> returns that function, not the string it
  was given, and resolving the result again throws a \<open>TypeError\<close>. The same happens
  for \<open>__proto__\<close>, in any letter case.
\<close>

theorem resolveValidator_inherited_property:
  "resolveValidator (JStr ''constructor'') = Inr (JBuiltin ''Object'')
   \<and> resolveValidator (JStr ''constructor'') \<noteq> Inr (JStr ''constructor'')
   \<and> resolveValidator (JBuiltin ''Object'') = Inl (JsError ''TypeError'' ''toLowerCase is not a function'')
   \<and> resolveValidator (JStr ''__PROTO__'') = Inr (JBuiltin ''Object.prototype'')"
  by (simp add: resolveValidator_def toLowerCase_def lower_char_def lower_letters_def
      upper_letters_def object_get_def VALIDATORS_def Object_prototype_def no_string_method_def)


section \<open>Properties of the swap module\<close>

lemma digits_of_nat_examples:
  "digits_of_nat 1000000000 = ''1000000000''" "digits_of_nat 1000000 = ''1000000''"
  "digits_of_nat 50 = ''50''" "digits_of_nat 500 = ''500''"
  by (simp_all add: digits_of_nat.simps digit_char_def)

lemma toString_examples:
  "toString k (JNum (Finite 1000000000)) = Inr ''1000000000''"
  "toString k (JNum (Finite 1000000)) = Inr ''1000000''"
  "toString k (JNum (Finite 50)) = Inr ''50''"
  "toString k (JStr s) = Inr s"
  by (simp_all add: toString_def Number_toString_def digits_of_nat_examples)

lemma String_of_string: "String_of k (JStr s) = Inr s"
  by (simp add: String_of_def toString_def)

lemma resolveMint_SOL:
  "resolveMint (JStr ''SOL'') = Inr (JStr ''So11111111111111111111111111111111111111112'')"
  "resolveMint (JStr ''So11111111111111111111111111111111111111112'')
     = Inr (JStr ''So11111111111111111111111111111111111111112'')"
  by (simp_all add: resolveMint_string TOKENS_long_miss)
     (simp add: TOKENS_def toUpperCase_def upper_char_def lower_letters_def upper_letters_def)

lemma resolveMint_USDC:
  "resolveMint (JStr ''USDC'') = Inr (JStr ''EPjFWdd5AufqSSqeM2qN1xzybapC8G4wEGGkZwyTDt1v'')"
  "resolveMint (JStr ''EPjFWdd5AufqSSqeM2qN1xzybapC8G4wEGGkZwyTDt1v'')
     = Inr (JStr ''EPjFWdd5AufqSSqeM2qN1xzybapC8G4wEGGkZwyTDt1v'')"
  by (simp_all add: resolveMint_string TOKENS_long_miss)
     (simp add: TOKENS_def toUpperCase_def upper_char_def lower_letters_def upper_letters_def)

text \<open>\<open>getQuote\<close> once its arguments are resolved and printed: one request, then the response.\<close>

lemma getQuote_fetch:
  assumes "resolveMint inputMint = Inr a" and "resolveMint outputMint = Inr b"
    and "toString k amt = Inr amount_text"
    and "toString k (if slippageBps = JUndefined then JNum (Finite 50) else slippageBps) = Inr slippage_text"
    and "String_of k a = Inr input_text" and "String_of k b = Inr output_text"
  shows "getQuote k w inputMint outputMint amt slippageBps =
           ((case http_fetch k w (quote_request input_text output_text amount_text slippage_text) of
               Inl e \<Rightarrow> Inl e
             | Inr response \<Rightarrow> quote_of_response a b response),
            w\<lparr>fetched := fetched w @ [quote_request input_text output_text amount_text slippage_text]\<rparr>)"
  using assms by (simp add: getQuote_def fetch_def split: sum.splits)

text \<open>
  C8. A quote that \<open>getQuote\<close> returns carries, as \<open>inputMint\<close> and \<open>outputMint\<close>, what
  \<open>resolveMint\<close> gives for the two arguments; and a symbol of the table and its address
  resolve to the same address, so the record is the same however the caller named the
  assets.
\<close>

theorem getQuote_resolved_mints:
  assumes "fst (getQuote k w inputMint outputMint amt slippageBps) = Inr quote"
  shows "resolveMint inputMint = Inr (q_inputMint quote)
       \<and> resolveMint outputMint = Inr (q_outputMint quote)
       \<and> resolveMint (JStr ''SOL'') = resolveMint (JStr ''So11111111111111111111111111111111111111112'')
       \<and> resolveMint (JStr ''USDC'') = resolveMint (JStr ''EPjFWdd5AufqSSqeM2qN1xzybapC8G4wEGGkZwyTDt1v'')"
proof -
  have "resolveMint inputMint = Inr (q_inputMint quote) \<and> resolveMint outputMint = Inr (q_outputMint quote)"
    using assms
    by (auto simp: getQuote_def fetch_def quote_of_response_def Let_def
        split: sum.splits prod.splits if_splits)
  then show ?thesis by (simp add: resolveMint_SOL resolveMint_USDC)
qed


lemma getQuote_example:
  assumes "resolveMint inputMint = Inr (JStr ''So11111111111111111111111111111111111111112'')"
    and "resolveMint outputMint = Inr (JStr ''EPjFWdd5AufqSSqeM2qN1xzybapC8G4wEGGkZwyTDt1v'')"
    and "toString (http_sdk quote_response) amt = Inr ''1000000000''"
  shows "getQuote (http_sdk quote_response) fresh_world inputMint outputMint amt JUndefined =
     (Inr \<lparr>q_inputMint = JStr ''So11111111111111111111111111111111111111112'',
           q_outputMint = JStr ''EPjFWdd5AufqSSqeM2qN1xzybapC8G4wEGGkZwyTDt1v'',
           q_inAmount = JStr ''1000000000'', q_outAmount = JStr ''152340000'',
           q_priceImpactPct = JStr ''0.0001'', q_routePlan = JArr [],
           q_raw = JObj [(''inAmount'', JStr ''1000000000''), (''outAmount'', JStr ''152340000''),
                         (''priceImpactPct'', JStr ''0.0001''), (''routePlan'', JArr [])]\<rparr>,
      fresh_world\<lparr>fetched :=
        [quote_request ''So11111111111111111111111111111111111111112''
           ''EPjFWdd5AufqSSqeM2qN1xzybapC8G4wEGGkZwyTDt1v'' ''1000000000'' ''50'']\<rparr>)"
proof -
  have f: "\<And>rq. http_fetch (http_sdk quote_response) fresh_world rq = Inr quote_response"
    by (simp add: http_sdk_def)
  have q: "quote_of_response (JStr ''So11111111111111111111111111111111111111112'')
             (JStr ''EPjFWdd5AufqSSqeM2qN1xzybapC8G4wEGGkZwyTDt1v'') quote_response =
     Inr \<lparr>q_inputMint = JStr ''So11111111111111111111111111111111111111112'',
           q_outputMint = JStr ''EPjFWdd5AufqSSqeM2qN1xzybapC8G4wEGGkZwyTDt1v'',
           q_inAmount = JStr ''1000000000'', q_outAmount = JStr ''152340000'',
           q_priceImpactPct = JStr ''0.0001'', q_routePlan = JArr [],
           q_raw = JObj [(''inAmount'', JStr ''1000000000''), (''outAmount'', JStr ''152340000''),
                         (''priceImpactPct'', JStr ''0.0001''), (''routePlan'', JArr [])]\<rparr>"
    by (simp add: quote_of_response_def quote_response_def ok_def object_get_def)
  have e: "fetched fresh_world = []" by (simp add: fresh_world_def)
  show ?thesis
    by (simp add: getQuote_fetch[OF assms(1,2,3) _ String_of_string String_of_string]
        toString_examples f q e)
qed

theorem getQuote_resolved_mints_witness:
  "fst (getQuote (http_sdk quote_response) fresh_world (JStr ''SOL'') (JStr ''USDC'')
          (JNum (Finite 1000000000)) JUndefined) =
   fst (getQuote (http_sdk quote_response) fresh_world
          (JStr ''So11111111111111111111111111111111111111112'')
          (JStr ''EPjFWdd5AufqSSqeM2qN1xzybapC8G4wEGGkZwyTDt1v'')
          (JNum (Finite 1000000000)) JUndefined)
   \<and> resolveMint (JStr ''SOL'') = Inr (JStr ''So11111111111111111111111111111111111111112'')
   \<and> resolveMint (JStr ''USDC'') = Inr (JStr ''EPjFWdd5AufqSSqeM2qN1xzybapC8G4wEGGkZwyTDt1v'')"
proof -
  note a = getQuote_example[OF resolveMint_SOL(1) resolveMint_USDC(1) toString_examples(1)]
  note b = getQuote_example[OF resolveMint_SOL(2) resolveMint_USDC(2) toString_examples(1)]
  have fa: "fst (getQuote (http_sdk quote_response) fresh_world (JStr ''SOL'') (JStr ''USDC'')
          (JNum (Finite 1000000000)) JUndefined) =
     Inr \<lparr>q_inputMint = JStr ''So11111111111111111111111111111111111111112'',
           q_outputMint = JStr ''EPjFWdd5AufqSSqeM2qN1xzybapC8G4wEGGkZwyTDt1v'',
           q_inAmount = JStr ''1000000000'', q_outAmount = JStr ''152340000'',
           q_priceImpactPct = JStr ''0.0001'', q_routePlan = JArr [],
           q_raw = JObj [(''inAmount'', JStr ''1000000000''), (''outAmount'', JStr ''152340000''),
                         (''priceImpactPct'', JStr ''0.0001''), (''routePlan'', JArr [])]\<rparr>"
    by (simp only: a fst_conv)
  from getQuote_resolved_mints[OF fa] show ?thesis
    by (simp only: a b fst_conv quote_record.simps)
qed


lemma Math_pow10_values: "Math_pow10 9 = Finite 1000000000" "Math_pow10 6 = Finite 1000000"
  by (simp_all add: Math_pow10_def fl_numeral_exact)

lemma TOKENS_SOL: "object_get TOKENS ''SOL'' = JStr ''So11111111111111111111111111111111111111112''"
  by (simp add: object_get_def TOKENS_def)

text \<open>
  C7. For every asset string, \<open>getPrice\<close> sends one quote request, for the resolved mint
  against USDC with slippage 50, whose amount is the text \<open>1000000000\<close> when the
  resolved mint is the native asset's and \<open>1000000\<close> otherwise; nothing else decides
  the amount. When the quote comes back, the call returns \<open>Number(quote.outAmount)\<close>
  divided by the constant 1000000.
\<close>

theorem getPrice_fixed_decimals:
  "\<exists>mint.
     resolveMint (JStr s) = Inr (JStr mint)
   \<and> fetched (snd (getPrice k w (JStr s))) =
       fetched w @
       [quote_request mint ''EPjFWdd5AufqSSqeM2qN1xzybapC8G4wEGGkZwyTDt1v''
          (if mint = ''So11111111111111111111111111111111111111112''
           then ''1000000000'' else ''1000000'') ''50'']
   \<and> (\<forall>quote.
        fst (getQuote k w (JStr mint) (JStr ''USDC'')
               (JStr (if mint = ''So11111111111111111111111111111111111111112''
                      then ''1000000000'' else ''1000000'')) JUndefined) = Inr quote
        \<longrightarrow> fst (getPrice k w (JStr s))
              = Inr (js_div (Number_of k (q_outAmount quote)) (Finite 1000000)))"
proof -
  obtain mint where m: "resolveMint (JStr s) = Inr (JStr mint)"
    using resolveMint_returns_string by blast
  have m2: "resolveMint (JStr mint) = Inr (JStr mint)"
    by (rule resolveMint_idempotent[OF m])
  let ?amount = "if mint = ''So11111111111111111111111111111111111111112''
                 then ''1000000000'' else ''1000000''"
  let ?usdc = "''EPjFWdd5AufqSSqeM2qN1xzybapC8G4wEGGkZwyTDt1v''"
  have t: "toString k (JNum (Math_pow10
             (if JStr mint = object_get TOKENS ''SOL'' then 9 else 6))) = Inr ?amount"
    by (simp add: TOKENS_SOL Math_pow10_values toString_examples)
  have q: "getQuote k w (JStr mint) (JStr ''USDC'') (JStr ?amount) JUndefined =
           ((case http_fetch k w (quote_request mint ?usdc ?amount ''50'') of
               Inl e \<Rightarrow> Inl e
             | Inr response \<Rightarrow> quote_of_response (JStr mint) (JStr ?usdc) response),
            w\<lparr>fetched := fetched w @ [quote_request mint ?usdc ?amount ''50'']\<rparr>)"
    by (rule getQuote_fetch[OF m2 resolveMint_USDC(1) toString_examples(4) _ String_of_string
          String_of_string]) (simp add: toString_examples)
  have tr: "getPrice_try k w (JStr mint)
              (Math_pow10 (if JStr mint = object_get TOKENS ''SOL'' then 9 else 6)) =
            (case fst (getQuote k w (JStr mint) (JStr ''USDC'') (JStr ?amount) JUndefined) of
               Inl e \<Rightarrow> Inl e
             | Inr quote \<Rightarrow> Inr (js_div (Number_of k (q_outAmount quote)) (Finite 1000000)),
             w\<lparr>fetched := fetched w @ [quote_request mint ?usdc ?amount ''50'']\<rparr>)"
    unfolding getPrice_try_def t by (simp add: q split: sum.splits)
  have f: "fetched (snd (getPrice k w (JStr s))) =
             fetched w @ [quote_request mint ?usdc ?amount ''50'']"
    by (simp add: getPrice_def m tr Let_def split: sum.splits)
  have r: "\<forall>quote. fst (getQuote k w (JStr mint) (JStr ''USDC'') (JStr ?amount) JUndefined) = Inr quote
        \<longrightarrow> fst (getPrice k w (JStr s))
              = Inr (js_div (Number_of k (q_outAmount quote)) (Finite 1000000))"
    by (simp add: getPrice_def m tr Let_def)
  from m f r show ?thesis by blast
qed

lemma fl_price_example: "fl (152340000 / 1000000) = Finite (5359987244012667 / 35184372088832)"
  by (rule fl_unfold[where e = 7 and u = "1 / 2 ^ 45" and n = 5359987244012667, simplified])
     (simp_all add: round_half_even_nearest)

theorem getPrice_fixed_decimals_witness:
  "fetched (snd (getPrice (http_sdk quote_response) fresh_world (JStr ''sol''))) =
     [quote_request ''So11111111111111111111111111111111111111112''
        ''EPjFWdd5AufqSSqeM2qN1xzybapC8G4wEGGkZwyTDt1v'' ''1000000000'' ''50'']
   \<and> fst (getPrice (http_sdk quote_response) fresh_world (JStr ''sol''))
       = Inr (Finite (5359987244012667 / 35184372088832))"
proof -
  let ?k = "http_sdk quote_response"
  have rs: "resolveMint (JStr ''sol'') = Inr (JStr ''So11111111111111111111111111111111111111112'')"
    by (simp add: resolveMint_string)
       (simp add: TOKENS_def toUpperCase_def upper_char_def lower_letters_def upper_letters_def)
  from getPrice_fixed_decimals[of "''sol''" ?k fresh_world] obtain mint where
    m: "resolveMint (JStr ''sol'') = Inr (JStr mint)"
    and f: "fetched (snd (getPrice ?k fresh_world (JStr ''sol''))) =
       fetched fresh_world @
       [quote_request mint ''EPjFWdd5AufqSSqeM2qN1xzybapC8G4wEGGkZwyTDt1v''
          (if mint = ''So11111111111111111111111111111111111111112''
           then ''1000000000'' else ''1000000'') ''50'']"
    and r: "\<forall>quote.
        fst (getQuote ?k fresh_world (JStr mint) (JStr ''USDC'')
               (JStr (if mint = ''So11111111111111111111111111111111111111112''
                      then ''1000000000'' else ''1000000'')) JUndefined) = Inr quote
        \<longrightarrow> fst (getPrice ?k fresh_world (JStr ''sol''))
              = Inr (js_div (Number_of ?k (q_outAmount quote)) (Finite 1000000))"
    by blast
  from m rs have mint: "mint = ''So11111111111111111111111111111111111111112''" by simp
  note g = getQuote_example[OF resolveMint_SOL(2) resolveMint_USDC(1) toString_examples(4)]
  have n: "Number_of ?k (JStr ''152340000'') = Finite 152340000"
    by (simp add: Number_of_def http_sdk_def example_sdk_def)
  have d: "js_div (Finite 152340000) (Finite 1000000) = Finite (5359987244012667 / 35184372088832)"
    by (simp only: js_div.simps fl_price_example) simp
  have e: "fetched fresh_world = []" by (simp add: fresh_world_def)
  have gq: "fst (getQuote ?k fresh_world (JStr mint) (JStr ''USDC'')
               (JStr (if mint = ''So11111111111111111111111111111111111111112''
                      then ''1000000000'' else ''1000000'')) JUndefined) =
     Inr \<lparr>q_inputMint = JStr ''So11111111111111111111111111111111111111112'',
           q_outputMint = JStr ''EPjFWdd5AufqSSqeM2qN1xzybapC8G4wEGGkZwyTDt1v'',
           q_inAmount = JStr ''1000000000'', q_outAmount = JStr ''152340000'',
           q_priceImpactPct = JStr ''0.0001'', q_routePlan = JArr [],
           q_raw = JObj [(''inAmount'', JStr ''1000000000''), (''outAmount'', JStr ''152340000''),
                         (''priceImpactPct'', JStr ''0.0001''), (''routePlan'', JArr [])]\<rparr>"
    unfolding mint by (simp add: g)
  have "fst (getPrice ?k fresh_world (JStr ''sol''))
          = Inr (js_div (Number_of ?k (JStr ''152340000'')) (Finite 1000000))"
    using r[rule_format, OF gq] by simp
  with f mint e n d show ?thesis by simp
qed


section \<open>Properties of the HTTP calls\<close>

lemma swap_after_quote:
  assumes "getQuote k w inputMint outputMint amt slippageBps = (Inr quote, w1)"
    and "http_fetch k w1 (swap_request wl quote) = Inr response"
  shows "fst (swap k wl w inputMint outputMint amt slippageBps) =
           (case transaction_of_response response of
              Inl e \<Rightarrow> Inl e
            | Inr swapTransaction \<Rightarrow>
                fst (sign_send_confirm k wl (w1\<lparr>fetched := fetched w1 @ [swap_request wl quote]\<rparr>)
                       quote swapTransaction))"
  using assms by (simp add: swap_def fetch_def split: sum.splits)

lemma request_after_fetch:
  assumes "http_fetch k w \<lparr>req_method = method, req_url = baseUrl c @ path, req_query = [],
             req_headers = headers c, req_body = body\<rparr> = Inr response"
  shows "fst (request k c w method path body) =
           (if \<not> ok response
            then Inl (JsError ''Error''
                   (''AgentDEX API '' @ method @ '' '' @ path @ '' failed (''
                      @ digits_of_nat (status response) @ ''): ''
                      @ (case text_result response of Inl e \<Rightarrow> [] | Inr t \<Rightarrow> t)))
            else json_result response)"
  using assms by (simp add: request_def fetch_def Let_def)

text \<open>
  C9, as the code has it. When the service answers with a status outside 200..299:
  \<open>Swapper.getQuote\<close> throws \<open>Quote failed: \<close> followed by the body text and
  \<open>Swapper.swap\<close> throws \<open>Swap transaction failed: \<close> followed by the body text (or
  whatever reading the body throws), neither with the status code; the AgentDEX
  \<open>request\<close> throws a message with the method, the path, the status code and the body
  text (empty when the body cannot be read). When the status is in 200..299 none of
  these errors is thrown: the call goes on with the JSON body, whose decoding or whose
  fields can still throw.
\<close>

theorem http_failure_wrapping:
  "(\<forall>a b amount_text slippage_text input_text output_text response.
       resolveMint inputMint = Inr a \<and> resolveMint outputMint = Inr b
     \<and> toString k amt = Inr amount_text
     \<and> toString k (if slippageBps = JUndefined then JNum (Finite 50) else slippageBps)
         = Inr slippage_text
     \<and> String_of k a = Inr input_text \<and> String_of k b = Inr output_text
     \<and> http_fetch k w (quote_request input_text output_text amount_text slippage_text) = Inr response
     \<longrightarrow> (\<not> ok response \<longrightarrow>
            fst (getQuote k w inputMint outputMint amt slippageBps) =
              (case text_result response of
                 Inl e \<Rightarrow> Inl e
               | Inr error \<Rightarrow> Inl (JsError ''Error'' (''Quote failed: '' @ error))))
       \<and> (ok response \<longrightarrow>
            fst (getQuote k w inputMint outputMint amt slippageBps) =
              (case json_result response of
                 Inl e \<Rightarrow> Inl e
               | Inr quote \<Rightarrow>
                   if nullish quote then Inl (cannot_read quote ''inAmount'')
                   else Inr \<lparr>q_inputMint = a, q_outputMint = b,
                             q_inAmount = lookup_prop quote ''inAmount'',
                             q_outAmount = lookup_prop quote ''outAmount'',
                             q_priceImpactPct = lookup_prop quote ''priceImpactPct'',
                             q_routePlan = lookup_prop quote ''routePlan'',
                             q_raw = quote\<rparr>)))
   \<and> (\<forall>quote w1 response.
       getQuote k w inputMint outputMint amt slippageBps = (Inr quote, w1)
     \<and> http_fetch k w1 (swap_request wl quote) = Inr response
     \<longrightarrow> (\<not> ok response \<longrightarrow>
            fst (swap k wl w inputMint outputMint amt slippageBps) =
              (case text_result response of
                 Inl e \<Rightarrow> Inl e
               | Inr error \<Rightarrow> Inl (JsError ''Error'' (''Swap transaction failed: '' @ error))))
       \<and> (ok response \<longrightarrow>
            fst (swap k wl w inputMint outputMint amt slippageBps) =
              (case json_result response of
                 Inl e \<Rightarrow> Inl e
               | Inr body \<Rightarrow>
                  (case get_prop body ''swapTransaction'' of
                     Inl e \<Rightarrow> Inl e
                   | Inr swapTransaction \<Rightarrow>
                       fst (sign_send_confirm k wl
                              (w1\<lparr>fetched := fetched w1 @ [swap_request wl quote]\<rparr>)
                              quote swapTransaction)))))
   \<and> (\<forall>response.
       http_fetch k w \<lparr>req_method = method, req_url = baseUrl c @ path, req_query = [],
          req_headers = headers c, req_body = body\<rparr> = Inr response
     \<longrightarrow> (\<not> ok response \<longrightarrow>
            fst (request k c w method path body) =
              Inl (JsError ''Error''
                     (''AgentDEX API '' @ method @ '' '' @ path @ '' failed (''
                        @ digits_of_nat (status response) @ ''): ''
                        @ (case text_result response of Inl e \<Rightarrow> [] | Inr t \<Rightarrow> t))))
       \<and> (ok response \<longrightarrow> fst (request k c w method path body) = json_result response))"
proof (intro conjI allI impI; (elim conjE)?)
  fix a b amount_text slippage_text input_text output_text response
  assume h: "resolveMint inputMint = Inr a" "resolveMint outputMint = Inr b"
    "toString k amt = Inr amount_text"
    "toString k (if slippageBps = JUndefined then JNum (Finite 50) else slippageBps) = Inr slippage_text"
    "String_of k a = Inr input_text" "String_of k b = Inr output_text"
    "http_fetch k w (quote_request input_text output_text amount_text slippage_text) = Inr response"
  have g: "fst (getQuote k w inputMint outputMint amt slippageBps) = quote_of_response a b response"
    by (simp add: getQuote_fetch[OF h(1-6)] h(7))
  {
    assume "\<not> ok response"
    then show "fst (getQuote k w inputMint outputMint amt slippageBps) =
              (case text_result response of
                 Inl e \<Rightarrow> Inl e
               | Inr error \<Rightarrow> Inl (JsError ''Error'' (''Quote failed: '' @ error)))"
      by (simp add: g quote_of_response_def)
  }
  {
    assume "ok response"
    then show "fst (getQuote k w inputMint outputMint amt slippageBps) =
              (case json_result response of
                 Inl e \<Rightarrow> Inl e
               | Inr quote \<Rightarrow>
                   if nullish quote then Inl (cannot_read quote ''inAmount'')
                   else Inr \<lparr>q_inputMint = a, q_outputMint = b,
                             q_inAmount = lookup_prop quote ''inAmount'',
                             q_outAmount = lookup_prop quote ''outAmount'',
                             q_priceImpactPct = lookup_prop quote ''priceImpactPct'',
                             q_routePlan = lookup_prop quote ''routePlan'',
                             q_raw = quote\<rparr>)"
      by (simp add: g quote_of_response_def)
  }
next
  fix quote w1 response
  assume h: "getQuote k w inputMint outputMint amt slippageBps = (Inr quote, w1)"
    "http_fetch k w1 (swap_request wl quote) = Inr response"
  note s = swap_after_quote[OF h]
  {
    assume "\<not> ok response"
    then show "fst (swap k wl w inputMint outputMint amt slippageBps) =
              (case text_result response of
                 Inl e \<Rightarrow> Inl e
               | Inr error \<Rightarrow> Inl (JsError ''Error'' (''Swap transaction failed: '' @ error)))"
      by (simp add: s transaction_of_response_def split: sum.splits)
  }
  {
    assume "ok response"
    then show "fst (swap k wl w inputMint outputMint amt slippageBps) =
              (case json_result response of
                 Inl e \<Rightarrow> Inl e
               | Inr body \<Rightarrow>
                  (case get_prop body ''swapTransaction'' of
                     Inl e \<Rightarrow> Inl e
                   | Inr swapTransaction \<Rightarrow>
                       fst (sign_send_confirm k wl
                              (w1\<lparr>fetched := fetched w1 @ [swap_request wl quote]\<rparr>)
                              quote swapTransaction)))"
      by (simp add: s transaction_of_response_def split: sum.splits)
  }
next
  fix response
  assume h: "http_fetch k w \<lparr>req_method = method, req_url = baseUrl c @ path, req_query = [],
          req_headers = headers c, req_body = body\<rparr> = Inr response"
  note r = request_after_fetch[OF h]
  {
    assume "\<not> ok response"
    then show "fst (request k c w method path body) =
              Inl (JsError ''Error''
                     (''AgentDEX API '' @ method @ '' '' @ path @ '' failed (''
                        @ digits_of_nat (status response) @ ''): ''
                        @ (case text_result response of Inl e \<Rightarrow> [] | Inr t \<Rightarrow> t)))"
      by (simp add: r)
  }
  {
    assume "ok response"
    then show "fst (request k c w method path body) = json_result response"
      by (simp add: r)
  }
qed


lemma getQuote_answered:
  assumes "resolveMint inputMint = Inr (JStr a)" and "resolveMint outputMint = Inr (JStr b)"
    and "toString (http_sdk response) amt = Inr amount_text"
  shows "fst (getQuote (http_sdk response) w inputMint outputMint amt JUndefined) =
           quote_of_response (JStr a) (JStr b) response"
proof -
  have f: "\<And>rq. http_fetch (http_sdk response) w rq = Inr response"
    by (simp add: http_sdk_def)
  show ?thesis
    by (simp add: getQuote_fetch[OF assms(1,2,3) _ String_of_string String_of_string]
        toString_examples f)
qed

lemma quote_of_failure:
  "quote_of_response a b (failure_response code) =
     (if 200 \<le> code \<and> code \<le> 299
      then Inl (JsError ''SyntaxError'' ''Unexpected token b in JSON'')
      else Inl (JsError ''Error'' ''Quote failed: boom''))"
  by (simp add: quote_of_response_def failure_response_def ok_def)

theorem http_failure_wrapping_witness:
  "fst (getQuote (http_sdk (failure_response 500)) fresh_world (JStr ''SOL'') (JStr ''USDC'')
          (JNum (Finite 1000000000)) JUndefined)
     = Inl (JsError ''Error'' ''Quote failed: boom'')
   \<and> fst (swap swap_failure_sdk example_wallet fresh_world (JStr ''SOL'') (JStr ''USDC'')
            (JNum (Finite 1000000000)) JUndefined)
     = Inl (JsError ''Error'' ''Swap transaction failed: boom'')
   \<and> fst (request (http_sdk (failure_response 500)) example_client fresh_world
            ''GET'' ''/api/v1/portfolio/me'' None)
     = Inl (JsError ''Error'' ''AgentDEX API GET /api/v1/portfolio/me failed (500): boom'')
   \<and> fst (request (http_sdk quote_response) example_client fresh_world
            ''GET'' ''/api/v1/portfolio/me'' None)
     = json_result quote_response"
proof -
  let ?k = "http_sdk (failure_response 500)"
  let ?sol = "''So11111111111111111111111111111111111111112''"
  let ?usdc = "''EPjFWdd5AufqSSqeM2qN1xzybapC8G4wEGGkZwyTDt1v''"
  let ?amt = "JNum (Finite 1000000000)"
  have nok: "\<not> ok (failure_response 500)" "\<not> ok (failure_response 400)" "ok quote_response"
    by (simp_all add: ok_def failure_response_def quote_response_def)
  have tx: "text_result (failure_response 500) = Inr ''boom''"
    "text_result (failure_response 400) = Inr ''boom''" "status (failure_response 500) = 500"
    by (simp_all add: failure_response_def)
  have f1: "http_fetch ?k fresh_world (quote_request ?sol ?usdc ''1000000000'' ''50'')
              = Inr (failure_response 500)"
    by (simp add: http_sdk_def)
  have s50: "toString ?k (if JUndefined = JUndefined then JNum (Finite 50) else JUndefined) = Inr ''50''"
    by (simp add: toString_examples)
  note t = http_failure_wrapping[of "JStr ''SOL''" "JStr ''USDC''" ?k ?amt JUndefined fresh_world]
  note q1 = conjunct1[OF t, rule_format,
      OF conjI[OF resolveMint_SOL(1) conjI[OF resolveMint_USDC(1) conjI[OF toString_examples(1)
         conjI[OF s50 conjI[OF String_of_string conjI[OF String_of_string f1]]]]]]]
  have c1: "fst (getQuote ?k fresh_world (JStr ''SOL'') (JStr ''USDC'') ?amt JUndefined)
              = Inl (JsError ''Error'' ''Quote failed: boom'')"
    using conjunct1[OF q1, rule_format, OF nok(1)] by (simp add: tx)
  let ?s = swap_failure_sdk
  let ?w1 = "fresh_world\<lparr>fetched := [quote_request ?sol ?usdc ''1000000000'' ''50'']\<rparr>"
  obtain quote where
    gq: "getQuote ?s fresh_world (JStr ''SOL'') (JStr ''USDC'') ?amt JUndefined = (Inr quote, ?w1)"
  proof -
    have f: "http_fetch ?s fresh_world (quote_request ?sol ?usdc ''1000000000'' ''50'')
               = Inr quote_response"
      by (simp add: swap_failure_sdk_def quote_request_def)
    have "\<exists>quote. quote_of_response (JStr ?sol) (JStr ?usdc) quote_response = Inr quote"
      by (simp add: quote_of_response_def quote_response_def ok_def)
    then obtain quote where
      q: "quote_of_response (JStr ?sol) (JStr ?usdc) quote_response = Inr quote" by blast
    have e: "fetched fresh_world = []" by (simp add: fresh_world_def)
    have "getQuote ?s fresh_world (JStr ''SOL'') (JStr ''USDC'') ?amt JUndefined = (Inr quote, ?w1)"
      by (simp add: getQuote_fetch[OF resolveMint_SOL(1) resolveMint_USDC(1) toString_examples(1)
            _ String_of_string String_of_string] toString_examples f q e)
    then show ?thesis by (rule that)
  qed
  have f2: "http_fetch ?s ?w1 (swap_request example_wallet quote) = Inr (failure_response 400)"
    by (simp add: swap_failure_sdk_def swap_request_def)
  note t2 = http_failure_wrapping[of "JStr ''SOL''" "JStr ''USDC''" ?s ?amt JUndefined fresh_world
      example_wallet]
  note q2 = conjunct1[OF conjunct2[OF t2], rule_format, OF conjI[OF gq f2]]
  have c2: "fst (swap ?s example_wallet fresh_world (JStr ''SOL'') (JStr ''USDC'') ?amt JUndefined)
              = Inl (JsError ''Error'' ''Swap transaction failed: boom'')"
    using conjunct1[OF q2, rule_format, OF nok(2)] by (simp add: tx)
  have f3: "http_fetch ?k fresh_world
              \<lparr>req_method = ''GET'', req_url = baseUrl example_client @ ''/api/v1/portfolio/me'',
               req_query = [], req_headers = headers example_client, req_body = None\<rparr>
              = Inr (failure_response 500)"
    by (simp add: http_sdk_def)
  note t3 = http_failure_wrapping[of _ _ ?k _ _ fresh_world _ "''GET''" example_client
      "''/api/v1/portfolio/me''" None]
  note q3 = conjunct2[OF conjunct2[OF t3], rule_format, OF f3]
  have c3: "fst (request ?k example_client fresh_world ''GET'' ''/api/v1/portfolio/me'' None)
     = Inl (JsError ''Error'' ''AgentDEX API GET /api/v1/portfolio/me failed (500): boom'')"
    using conjunct1[OF q3, rule_format, OF nok(1)] by (simp add: tx digits_of_nat_examples)
  have f4: "http_fetch (http_sdk quote_response) fresh_world
              \<lparr>req_method = ''GET'', req_url = baseUrl example_client @ ''/api/v1/portfolio/me'',
               req_query = [], req_headers = headers example_client, req_body = None\<rparr>
              = Inr quote_response"
    by (simp add: http_sdk_def)
  note t4 = http_failure_wrapping[of _ _ "http_sdk quote_response" _ _ fresh_world _ "''GET''"
      example_client "''/api/v1/portfolio/me''" None]
  note q4 = conjunct2[OF conjunct2[OF t4], rule_format, OF f4]
  have c4: "fst (request (http_sdk quote_response) example_client fresh_world
            ''GET'' ''/api/v1/portfolio/me'' None) = json_result quote_response"
    using conjunct2[OF q4, rule_format, OF nok(3)] .
  from c1 c2 c3 c4 show ?thesis by blast
qed

text \<open>
  C9 as stated fails for the quote service: on status 500 with body \<open>boom\<close> the error of
  \<open>getQuote\<close> is \<open>Quote failed: boom\<close>, which has no status code in it; and on status
  200 with the body \<open>null\<close> the call still throws, a \<open>TypeError\<close>.
\<close>

theorem quote_failure_counterexample:
  "status (failure_response 500) = 500
   \<and> fst (getQuote (http_sdk (failure_response 500)) fresh_world (JStr ''SOL'') (JStr ''USDC'')
            (JNum (Finite 1000000000)) JUndefined)
       = Inl (JsError ''Error'' ''Quote failed: boom'')
   \<and> \<not> str_includes ''Quote failed: boom'' ''500''
   \<and> status null_response = 200
   \<and> fst (getQuote (http_sdk null_response) fresh_world (JStr ''SOL'') (JStr ''USDC'')
            (JNum (Finite 1000000000)) JUndefined)
       = Inl (JsError ''TypeError'' ''Cannot read properties of null (reading inAmount)'')"
proof -
  have a: "fst (getQuote (http_sdk (failure_response 500)) fresh_world (JStr ''SOL'') (JStr ''USDC'')
            (JNum (Finite 1000000000)) JUndefined) = Inl (JsError ''Error'' ''Quote failed: boom'')"
    by (simp add: getQuote_answered[OF resolveMint_SOL(1) resolveMint_USDC(1) toString_examples(1)]
        quote_of_failure)
  have b: "fst (getQuote (http_sdk null_response) fresh_world (JStr ''SOL'') (JStr ''USDC'')
            (JNum (Finite 1000000000)) JUndefined)
       = Inl (JsError ''TypeError'' ''Cannot read properties of null (reading inAmount)'')"
    by (simp add: getQuote_answered[OF resolveMint_SOL(1) resolveMint_USDC(1) toString_examples(1)]
        quote_of_response_def null_response_def ok_def cannot_read_def)
  have c: "\<not> str_includes ''Quote failed: boom'' ''500''" by simp
  show ?thesis
    using a b c by (simp add: failure_response_def null_response_def)
qed


end
